theory Spec2Isabelle
  imports Main "HOL-Library.Word"
begin

unbundle bit_operations_syntax

section \<open>Errors and Go library functions used by the sidecar code\<close>

text \<open>
  The error values the code under \<^verbatim>\<open>vfs/\<close>, \<^verbatim>\<open>cmd/mount\<close> and \<^verbatim>\<open>cmd/serve/nfs\<close>
  returns, compares against or passes on: \<^verbatim>\<open>fs.ErrorObjectNotFound\<close>, \<^verbatim>\<open>vfs.ENOENT\<close>,
  \<^verbatim>\<open>vfs.ENOSYS\<close>, the two errors of \<^verbatim>\<open>strconv\<close>, an error of \<^verbatim>\<open>encoding/json\<close>, and any
  other failure of a file primitive. A Go \<^verbatim>\<open>error\<close> result is an \<open>error option\<close>,
  \<open>None\<close> being \<^verbatim>\<open>nil\<close>.
\<close>

datatype error =
    ErrorObjectNotFound
  | ENOENT
  | ENOSYS
  | ErrSyntax
  | ErrRange
  | JSONError
  | IOError

text \<open>\<^verbatim>\<open>strings.HasSuffix\<close> and \<^verbatim>\<open>strings.TrimSuffix\<close>, as the Go library writes them.\<close>

definition HasSuffix :: "string \<Rightarrow> string \<Rightarrow> bool" where
  "HasSuffix s sfx =
     (length s \<ge> length sfx \<and> drop (length s - length sfx) s = sfx)"

definition TrimSuffix :: "string \<Rightarrow> string \<Rightarrow> string" where
  "TrimSuffix s sfx =
     (if HasSuffix s sfx then take (length s - length sfx) s else s)"

text \<open>
  \<^verbatim>\<open>strconv.FormatUint(i, base)\<close> for the bases the code passes (8 and 10): the digits of
  \<open>i\<close>, most significant first, \<^verbatim>\<open>"0"\<close> for zero.
\<close>

definition digits :: string where
  "digits = ''0123456789abcdefghijklmnopqrstuvwxyz''"

definition digit_char :: "nat \<Rightarrow> char" where
  "digit_char d = digits ! d"

function FormatUint :: "nat \<Rightarrow> nat \<Rightarrow> string" where
  "FormatUint i base =
     (if base < 2 \<or> i < base then [digit_char i]
      else FormatUint (i div base) base @ [digit_char (i mod base)])"
  by pat_completeness auto
termination
  by (relation "measure (\<lambda>(i, base). i)") auto

declare FormatUint.simps [simp del]

text \<open>
  \<^verbatim>\<open>strconv.ParseUint(s, base, bitSize)\<close> for a base of at most 10 and a bit size of at
  most 32: the empty string and any byte that is not a digit below the base are a syntax
  error, a value above \<open>2 ^ bitSize - 1\<close> is a range error, and the scan stops at the
  first of them.
\<close>

fun parse_digits :: "nat \<Rightarrow> nat \<Rightarrow> nat \<Rightarrow> string \<Rightarrow> error + nat" where
  "parse_digits base maxVal n [] = Inr n"
| "parse_digits base maxVal n (c # cs) =
     (let k = (of_char c :: nat) in
      if k < 48 \<or> 57 < k \<or> k - 48 \<ge> base then Inl ErrSyntax
      else if n * base + (k - 48) > maxVal then Inl ErrRange
      else parse_digits base maxVal (n * base + (k - 48)) cs)"

definition ParseUint :: "string \<Rightarrow> nat \<Rightarrow> nat \<Rightarrow> error + nat" where
  "ParseUint s base bitSize =
     (if s = [] then Inl ErrSyntax else parse_digits base (2 ^ bitSize - 1) 0 s)"

section \<open>Attribute codec (vfs/posixmeta\_sidecar.go)\<close>

text \<open>\<^verbatim>\<open>os.FileMode\<close> is a \<^verbatim>\<open>uint32\<close>.\<close>

type_synonym FileMode = "32 word"

definition FormatPosixMode :: "FileMode \<Rightarrow> bool \<Rightarrow> string" where
  "FormatPosixMode m isDir =
     (let mode = (if isDir then (m AND NOT 0xF000) OR 0x4000
                  else (m AND NOT 0xF000) OR 0x8000)
      in FormatUint (unat mode) 8)"

definition ParsePosixMode :: "string \<Rightarrow> FileMode" where
  "ParsePosixMode s =
     (case ParseUint s 8 32 of Inl err \<Rightarrow> 0 | Inr u \<Rightarrow> word_of_nat u)"

text \<open>
  \<^verbatim>\<open>PosixMeta\<close>: six optional strings (\<^verbatim>\<open>*string\<close>, \<open>None\<close> being \<^verbatim>\<open>nil\<close>).
  \<open>PosixMeta_zero\<close> is the zero value \<^verbatim>\<open>PosixMeta{}\<close>.
\<close>

record PosixMeta =
  Mode :: "string option"
  UID :: "string option"
  GID :: "string option"
  Mtime :: "string option"
  Atime :: "string option"
  Btime :: "string option"

definition PosixMeta_zero :: PosixMeta where
  "PosixMeta_zero =
     \<lparr>Mode = None, UID = None, GID = None, Mtime = None, Atime = None, Btime = None\<rparr>"

definition PosixAnyFieldSet :: "PosixMeta \<Rightarrow> bool" where
  "PosixAnyFieldSet m =
     (Mode m \<noteq> None \<or> UID m \<noteq> None \<or> GID m \<noteq> None \<or> Mtime m \<noteq> None
      \<or> Atime m \<noteq> None \<or> Btime m \<noteq> None)"

section \<open>Sidecar naming\<close>

text \<open>
  The two stores. The \<^verbatim>\<open>Vfs\<close> field of either is the file system the operations below
  take and return explicitly.
\<close>

record PosixMetaStore =
  Ext :: string

record sidecarStore =
  ext :: string

definition IsSidecarPath :: "PosixMetaStore \<Rightarrow> string \<Rightarrow> bool" where
  "IsSidecarPath s p = (if Ext s = [] then False else HasSuffix p (Ext s))"

definition metaPath :: "PosixMetaStore \<Rightarrow> string \<Rightarrow> string" where
  "metaPath s p = (let e = (if Ext s = [] then ''.posixmeta'' else Ext s) in p @ e)"

text \<open>\<^verbatim>\<open>sidecarStore.name\<close> of the generic store (vfs/metadata\_sidecar.go).\<close>

definition sidecarStore_name :: "sidecarStore \<Rightarrow> string \<Rightarrow> string" where
  "sidecarStore_name s p = TrimSuffix p ''/'' @ ext s"

section \<open>The file primitives the store calls\<close>

text \<open>
  A time is counted in seconds from Go's zero \<^verbatim>\<open>time.Time\<close> (the first second of the
  year 1, UTC), so that \<^verbatim>\<open>t.IsZero()\<close> is \<open>t = 0\<close>.
\<close>

type_synonym Time = int

text \<open>One call of a file primitive, with its arguments.\<close>

datatype vfs_call =
    OpReadFile string
  | OpCreate string
  | OpWrite string string
  | OpClose string
  | OpRename string string
  | OpRemove string
  | OpStat string

text \<open>
  What the code takes from outside the files at hand, as parameters: which calls of a
  file primitive fail and with what error (\<open>fail\<close>; a call that is repeated fails
  again), how many bytes of a failing write reach the file (\<open>short_write\<close>),
  \<^verbatim>\<open>json.Marshal\<close> and \<^verbatim>\<open>json.Unmarshal\<close> on a \<^verbatim>\<open>PosixMeta\<close>, formatting and parsing
  a time in \<^verbatim>\<open>time.RFC3339\<close>, the clock \<^verbatim>\<open>time.Now()\<close>, and the mount layer's
  \<^verbatim>\<open>translateError\<close>.
\<close>

record env =
  fail :: "vfs_call \<Rightarrow> error option"
  short_write :: nat
  Marshal :: "PosixMeta \<Rightarrow> error + string"
  Unmarshal :: "string \<Rightarrow> error + PosixMeta"
  FormatRFC3339 :: "Time \<Rightarrow> string"
  ParseRFC3339 :: "string \<Rightarrow> error + Time"
  Now :: Time
  translateError :: "error \<Rightarrow> error"

text \<open>
  The state behind \<^verbatim>\<open>*VFS\<close>: the content of every file, by path, and the calls made so
  far, each with the files as the call left them. A reader that runs between two calls
  sees one of these snapshots.
\<close>

record VFS =
  files :: "string \<rightharpoonup> string"
  trace :: "(vfs_call \<times> (string \<rightharpoonup> string)) list"

definition called :: "vfs_call \<Rightarrow> VFS \<Rightarrow> VFS" where
  "called c v = v\<lparr>trace := trace v @ [(c, files v)]\<rparr>"

text \<open>
  Modelled from the spec: the VFS's file-access contract (read, create, write, close,
  rename, remove, stat), whose code is not among the sources. Reading, renaming,
  removing or stat-ing a path that does not exist fails with \<^verbatim>\<open>vfs.ENOENT\<close>; create
  truncates; a write replaces the content of the file of its handle (a handle is the path
  it was created for), a failing one leaves a prefix; rename moves the content onto the
  new path in one step. Every call is one atomic step and is recorded.
\<close>

definition Vfs_ReadFile :: "env \<Rightarrow> string \<Rightarrow> VFS \<Rightarrow> (error + string) \<times> VFS" where
  "Vfs_ReadFile E p v =
     (case fail E (OpReadFile p) of
        Some e \<Rightarrow> (Inl e, called (OpReadFile p) v)
      | None \<Rightarrow>
         (case files v p of
            None \<Rightarrow> (Inl ENOENT, called (OpReadFile p) v)
          | Some b \<Rightarrow> (Inr b, called (OpReadFile p) v)))"

definition Vfs_Create :: "env \<Rightarrow> string \<Rightarrow> VFS \<Rightarrow> (error + string) \<times> VFS" where
  "Vfs_Create E p v =
     (case fail E (OpCreate p) of
        Some e \<Rightarrow> (Inl e, called (OpCreate p) v)
      | None \<Rightarrow> (Inr p, called (OpCreate p) (v\<lparr>files := (files v)(p \<mapsto> [])\<rparr>)))"

definition Vfs_Write :: "env \<Rightarrow> string \<Rightarrow> string \<Rightarrow> VFS \<Rightarrow> error option \<times> VFS" where
  "Vfs_Write E h b v =
     (case fail E (OpWrite h b) of
        Some e \<Rightarrow>
          (Some e, called (OpWrite h b) (v\<lparr>files := (files v)(h \<mapsto> take (short_write E) b)\<rparr>))
      | None \<Rightarrow> (None, called (OpWrite h b) (v\<lparr>files := (files v)(h \<mapsto> b)\<rparr>)))"

definition Vfs_Close :: "env \<Rightarrow> string \<Rightarrow> VFS \<Rightarrow> error option \<times> VFS" where
  "Vfs_Close E h v = (fail E (OpClose h), called (OpClose h) v)"

definition Vfs_Rename :: "env \<Rightarrow> string \<Rightarrow> string \<Rightarrow> VFS \<Rightarrow> error option \<times> VFS" where
  "Vfs_Rename E old new v =
     (case fail E (OpRename old new) of
        Some e \<Rightarrow> (Some e, called (OpRename old new) v)
      | None \<Rightarrow>
         (case files v old of
            None \<Rightarrow> (Some ENOENT, called (OpRename old new) v)
          | Some b \<Rightarrow>
              (None, called (OpRename old new)
                       (v\<lparr>files := ((files v)(old := None))(new \<mapsto> b)\<rparr>))))"

definition Vfs_Remove :: "env \<Rightarrow> string \<Rightarrow> VFS \<Rightarrow> error option \<times> VFS" where
  "Vfs_Remove E p v =
     (case fail E (OpRemove p) of
        Some e \<Rightarrow> (Some e, called (OpRemove p) v)
      | None \<Rightarrow>
         (case files v p of
            None \<Rightarrow> (Some ENOENT, called (OpRemove p) v)
          | Some b \<Rightarrow> (None, called (OpRemove p) (v\<lparr>files := (files v)(p := None)\<rparr>))))"

definition Vfs_Stat :: "env \<Rightarrow> string \<Rightarrow> VFS \<Rightarrow> error option \<times> VFS" where
  "Vfs_Stat E p v =
     (case fail E (OpStat p) of
        Some e \<Rightarrow> (Some e, called (OpStat p) v)
      | None \<Rightarrow>
         (case files v p of
            None \<Rightarrow> (Some ENOENT, called (OpStat p) v)
          | Some b \<Rightarrow> (None, called (OpStat p) v)))"

section \<open>The POSIX store (vfs/posixmeta\_sidecar.go)\<close>

text \<open>
  \<^verbatim>\<open>Load\<close> returns the pair the Go function returns: the record, which is
  \<^verbatim>\<open>PosixMeta{}\<close> on every error path, and the error.
\<close>

definition Load :: "env \<Rightarrow> PosixMetaStore \<Rightarrow> string \<Rightarrow> VFS \<Rightarrow> (PosixMeta \<times> error option) \<times> VFS" where
  "Load E s path v =
     (if IsSidecarPath s path then ((PosixMeta_zero, Some ErrorObjectNotFound), v)
      else
        (case Vfs_ReadFile E (metaPath s path) v of
           (Inl err, v1) \<Rightarrow> ((PosixMeta_zero, Some err), v1)
         | (Inr b, v1) \<Rightarrow>
             if length b = 0 then ((PosixMeta_zero, Some ErrorObjectNotFound), v1)
             else
               (case Unmarshal E b of
                  Inl err \<Rightarrow> ((PosixMeta_zero, Some err), v1)
                | Inr m \<Rightarrow> ((m, None), v1))))"

text \<open>The six assignments of \<^verbatim>\<open>Save\<close>, in the order of the source.\<close>

definition merge :: "PosixMeta \<Rightarrow> PosixMeta \<Rightarrow> PosixMeta" where
  "merge cur m =
     (let cur = (if Mode m \<noteq> None then cur\<lparr>Mode := Mode m\<rparr> else cur);
          cur = (if UID m \<noteq> None then cur\<lparr>UID := UID m\<rparr> else cur);
          cur = (if GID m \<noteq> None then cur\<lparr>GID := GID m\<rparr> else cur);
          cur = (if Mtime m \<noteq> None then cur\<lparr>Mtime := Mtime m\<rparr> else cur);
          cur = (if Atime m \<noteq> None then cur\<lparr>Atime := Atime m\<rparr> else cur);
          cur = (if Btime m \<noteq> None then cur\<lparr>Btime := Btime m\<rparr> else cur)
      in cur)"

definition Save :: "env \<Rightarrow> PosixMetaStore \<Rightarrow> string \<Rightarrow> PosixMeta \<Rightarrow> VFS \<Rightarrow> error option \<times> VFS" where
  "Save E s path m v =
     (if IsSidecarPath s path then (None, v)
      else
        (case Load E s path v of
           ((cur0, _), v1) \<Rightarrow>
             (let cur = merge cur0 m;
                  p = metaPath s path;
                  tmp = p @ ''.tmp''
              in case Vfs_Create E tmp v1 of
                   (Inl err, v2) \<Rightarrow> (Some err, v2)
                 | (Inr w, v2) \<Rightarrow>
                     (case Marshal E cur of
                        Inl err \<Rightarrow>
                          (Some err, snd (Vfs_Remove E tmp (snd (Vfs_Close E w v2))))
                      | Inr enc \<Rightarrow>
                          (case Vfs_Write E w enc v2 of
                             (Some err, v3) \<Rightarrow>
                               (Some err, snd (Vfs_Remove E tmp (snd (Vfs_Close E w v3))))
                           | (None, v3) \<Rightarrow>
                               (case Vfs_Close E w v3 of
                                  (Some err, v4) \<Rightarrow> (Some err, snd (Vfs_Remove E tmp v4))
                                | (None, v4) \<Rightarrow>
                                    (case Vfs_Rename E tmp p v4 of
                                       (Some err, v5) \<Rightarrow> (Some err, snd (Vfs_Remove E tmp v5))
                                     | (None, v5) \<Rightarrow> (None, v5))))))))"

definition Delete :: "env \<Rightarrow> PosixMetaStore \<Rightarrow> string \<Rightarrow> VFS \<Rightarrow> error option \<times> VFS" where
  "Delete E s path v =
     (if IsSidecarPath s path then (None, v)
      else Vfs_Remove E (metaPath s path) v)"

definition Rename :: "env \<Rightarrow> PosixMetaStore \<Rightarrow> string \<Rightarrow> string \<Rightarrow> VFS \<Rightarrow> error option \<times> VFS" where
  "Rename E s oldPath newPath v =
     (if IsSidecarPath s oldPath \<or> IsSidecarPath s newPath then (None, v)
      else
        (let oldM = metaPath s oldPath;
             newM = metaPath s newPath
         in case Vfs_Stat E oldM v of
              (Some err, v1) \<Rightarrow> (None, v1)
            | (None, v1) \<Rightarrow> Vfs_Rename E oldM newM v1))"

definition ParsePosixTime :: "env \<Rightarrow> string \<Rightarrow> Time" where
  "ParsePosixTime E s =
     (if s = [] then 0
      else (case ParseRFC3339 E s of Inl err \<Rightarrow> 0 | Inr t \<Rightarrow> t))"

section \<open>The overlay adapters\<close>

text \<open>
  The options the adapters read (\<^verbatim>\<open>VFS().Opt\<close> and the mount's \<^verbatim>\<open>AttrTimeout\<close>), and the
  outcome of each call an adapter makes on the tracked object itself, as parameters: the
  tracked objects are served by VFS code that is not among the sources.
\<close>

record Options =
  Opt_UID :: "32 word"
  Opt_GID :: "32 word"
  PersistMetadata :: bool
  PosixMetadataExtension :: string
  NoModTime :: bool
  AttrTimeout :: int

text \<open>A tracked object as the adapters read it (\<^verbatim>\<open>vfs.Node\<close>, \<^verbatim>\<open>os.FileInfo\<close>).\<close>

record FileInfoSys =
  Nlink :: "32 word"
  sys_UID :: "32 word"
  sys_GID :: "32 word"
  Fileid :: "64 word"

record Node =
  n_Path :: string
  n_Inode :: "64 word"
  n_Size :: int
  n_Mode :: FileMode
  n_ModTime :: Time
  n_Sys :: "FileInfoSys option"

record live =
  live_Truncate :: "error option"
  live_SetModTime :: "error option"
  live_Stat :: "error + Node"
  live_Open :: "error option"
  live_Chmod :: "error option"
  live_Chown :: "error option"
  live_Chtimes :: "error option"

subsection \<open>Mount (cmd/mount/file.go)\<close>

record Attr =
  a_Valid :: int
  a_Size :: "64 word"
  a_Blocks :: "64 word"
  a_Atime :: Time
  a_Mtime :: Time
  a_Ctime :: Time
  a_Mode :: FileMode
  a_Uid :: "32 word"
  a_Gid :: "32 word"

record SetattrRequest =
  Valid_Size :: bool
  Valid_Mode :: bool
  Valid_Uid :: bool
  Valid_Gid :: bool
  Valid_Atime :: bool
  Valid_AtimeNow :: bool
  Valid_Mtime :: bool
  Valid_MtimeNow :: bool
  req_Size :: "64 word"
  req_Mode :: FileMode
  req_Uid :: "32 word"
  req_Gid :: "32 word"
  req_Atime :: Time
  req_Mtime :: Time

text \<open>\<^verbatim>\<open>os.ModeAppend\<close> is bit 30 of a \<^verbatim>\<open>FileMode\<close>.\<close>

definition ModeAppend :: FileMode where
  "ModeAppend = push_bit 30 1"

text \<open>The five overlay steps of \<^verbatim>\<open>File.Attr\<close>, in the order of the source.\<close>

definition overlay_Attr :: "env \<Rightarrow> PosixMeta \<Rightarrow> Attr \<Rightarrow> Attr" where
  "overlay_Attr E m a =
     (let a = (case Mode m of None \<Rightarrow> a | Some s \<Rightarrow> a\<lparr>a_Mode := ParsePosixMode s\<rparr>);
          a = (case UID m of None \<Rightarrow> a
               | Some s \<Rightarrow> (case ParseUint s 10 32 of
                             Inl err \<Rightarrow> a | Inr u \<Rightarrow> a\<lparr>a_Uid := word_of_nat u\<rparr>));
          a = (case GID m of None \<Rightarrow> a
               | Some s \<Rightarrow> (case ParseUint s 10 32 of
                             Inl err \<Rightarrow> a | Inr u \<Rightarrow> a\<lparr>a_Gid := word_of_nat u\<rparr>));
          a = (case Atime m of None \<Rightarrow> a
               | Some s \<Rightarrow> (let t = ParsePosixTime E s
                            in if t \<noteq> 0 then a\<lparr>a_Atime := t\<rparr> else a));
          a = (case Mtime m of None \<Rightarrow> a
               | Some s \<Rightarrow> (let t = ParsePosixTime E s
                            in if t \<noteq> 0 then a\<lparr>a_Mtime := t\<rparr> else a))
      in a)"

definition Attr :: "env \<Rightarrow> Options \<Rightarrow> Node \<Rightarrow> Attr \<Rightarrow> VFS \<Rightarrow> (Attr \<times> error option) \<times> VFS" where
  "Attr E opt f a v =
     (let a = a\<lparr>a_Valid := AttrTimeout opt\<rparr>;
          modTime = n_ModTime f;
          Size = (word_of_int (n_Size f) :: 64 word);
          Blocks = (Size + 511) div 512;
          a = a\<lparr>a_Gid := Opt_GID opt\<rparr>;
          a = a\<lparr>a_Uid := Opt_UID opt\<rparr>;
          a = a\<lparr>a_Mode := n_Mode f AND NOT ModeAppend\<rparr>;
          a = a\<lparr>a_Size := Size\<rparr>;
          a = a\<lparr>a_Atime := modTime\<rparr>;
          a = a\<lparr>a_Mtime := modTime\<rparr>;
          a = a\<lparr>a_Ctime := modTime\<rparr>;
          (a, v) =
            (if PersistMetadata opt then
               (let store = \<lparr>Ext = PosixMetadataExtension opt\<rparr>
                in if \<not> IsSidecarPath store (n_Path f) then
                     (case Load E store (n_Path f) v of
                        ((m, None), v1) \<Rightarrow> (overlay_Attr E m a, v1)
                      | ((m, Some err2), v1) \<Rightarrow> (a, v1))
                   else (a, v))
             else (a, v))
      in ((a\<lparr>a_Blocks := Blocks\<rparr>, None), v))"

text \<open>
  The partial record \<^verbatim>\<open>File.Setattr\<close> builds from the request. The call of
  \<^verbatim>\<open>InvalidateNodeAttr\<close> after the save touches the kernel's cache only and has no
  counterpart here.
\<close>

definition Setattr_meta :: "env \<Rightarrow> SetattrRequest \<Rightarrow> PosixMeta" where
  "Setattr_meta E req =
     (let m = PosixMeta_zero;
          m = (if Valid_Mode req then m\<lparr>Mode := Some (FormatPosixMode (req_Mode req) False)\<rparr>
               else m);
          m = (if Valid_Uid req then m\<lparr>UID := Some (FormatUint (unat (req_Uid req)) 10)\<rparr>
               else m);
          m = (if Valid_Gid req then m\<lparr>GID := Some (FormatUint (unat (req_Gid req)) 10)\<rparr>
               else m);
          m = (if Valid_Atime req then m\<lparr>Atime := Some (FormatRFC3339 E (req_Atime req))\<rparr>
               else if Valid_AtimeNow req then m\<lparr>Atime := Some (FormatRFC3339 E (Now E))\<rparr>
               else m);
          m = (if Valid_Mtime req then m\<lparr>Mtime := Some (FormatRFC3339 E (req_Mtime req))\<rparr>
               else if Valid_MtimeNow req then m\<lparr>Mtime := Some (FormatRFC3339 E (Now E))\<rparr>
               else m)
      in m)"

definition Setattr :: "env \<Rightarrow> Options \<Rightarrow> live \<Rightarrow> Node \<Rightarrow> SetattrRequest \<Rightarrow> VFS \<Rightarrow> error option \<times> VFS" where
  "Setattr E opt L f req v =
     (let err = None;
          err = (if Valid_Size req then (if err = None then live_Truncate L else err)
                 else err);
          err = (if \<not> NoModTime opt then
                   (if Valid_Mtime req then (if err = None then live_SetModTime L else err)
                    else if Valid_MtimeNow req then
                      (if err = None then live_SetModTime L else err)
                    else err)
                 else err);
          v = (if PersistMetadata opt then
                 (let store = \<lparr>Ext = PosixMetadataExtension opt\<rparr>
                  in if \<not> IsSidecarPath store (n_Path f) then
                       (let m = Setattr_meta E req
                        in if PosixAnyFieldSet m then snd (Save E store (n_Path f) m v)
                           else v)
                     else v)
               else v)
      in (map_option (translateError E) err, v))"

subsection \<open>Network share (cmd/serve/nfs/filesystem.go)\<close>

text \<open>
  \<^verbatim>\<open>setSys\<close>. Its argument is always a \<^verbatim>\<open>vfs.Node\<close> here, so the branch of the failed
  type assertion has no counterpart.
\<close>

definition setSys :: "env \<Rightarrow> Options \<Rightarrow> Node \<Rightarrow> VFS \<Rightarrow> Node \<times> VFS" where
  "setSys E opt node v =
     (let stat = \<lparr>Nlink = 1, sys_UID = Opt_UID opt, sys_GID = Opt_GID opt,
                   Fileid = n_Inode node\<rparr>;
          (stat, v) =
            (if PersistMetadata opt then
               (let store = \<lparr>Ext = PosixMetadataExtension opt\<rparr>
                in if \<not> IsSidecarPath store (n_Path node) then
                     (case Load E store (n_Path node) v of
                        ((m, None), v1) \<Rightarrow>
                          (let stat = (case UID m of None \<Rightarrow> stat
                                       | Some s \<Rightarrow>
                                          (case ParseUint s 10 32 of
                                             Inl err2 \<Rightarrow> stat
                                           | Inr u \<Rightarrow> stat\<lparr>sys_UID := word_of_nat u\<rparr>));
                               stat = (case GID m of None \<Rightarrow> stat
                                       | Some s \<Rightarrow>
                                          (case ParseUint s 10 32 of
                                             Inl err2 \<Rightarrow> stat
                                           | Inr u \<Rightarrow> stat\<lparr>sys_GID := word_of_nat u\<rparr>))
                           in (stat, v1))
                      | ((m, Some err), v1) \<Rightarrow> (stat, v1))
                   else (stat, v))
             else (stat, v))
      in (node\<lparr>n_Sys := Some stat\<rparr>, v))"

text \<open>
  The \<^verbatim>\<open>os.FileInfo\<close> that \<^verbatim>\<open>FS.Stat\<close> returns: the node itself, or an
  \<^verbatim>\<open>overlayFileInfo\<close> around it with its two optional overrides.
\<close>

datatype FileInfo =
    PlainInfo Node
  | overlayFileInfo Node "FileMode option" "Time option"

fun FileInfo_Mode :: "FileInfo \<Rightarrow> FileMode" where
  "FileInfo_Mode (PlainInfo n) = n_Mode n"
| "FileInfo_Mode (overlayFileInfo n modeOverride mtimeOverride) =
     (case modeOverride of Some mode \<Rightarrow> mode | None \<Rightarrow> n_Mode n)"

fun FileInfo_ModTime :: "FileInfo \<Rightarrow> Time" where
  "FileInfo_ModTime (PlainInfo n) = n_ModTime n"
| "FileInfo_ModTime (overlayFileInfo n modeOverride mtimeOverride) =
     (case mtimeOverride of Some t \<Rightarrow> t | None \<Rightarrow> n_ModTime n)"

definition withOverlayFileInfo :: "env \<Rightarrow> Node \<Rightarrow> PosixMeta \<Rightarrow> FileInfo" where
  "withOverlayFileInfo E fi m =
     (let om = (case Mode m of None \<Rightarrow> None | Some s \<Rightarrow> Some (ParsePosixMode s));
          mt = (case Mtime m of None \<Rightarrow> None
                | Some s \<Rightarrow> (let t = ParsePosixTime E s in if t \<noteq> 0 then Some t else None))
      in if om = None \<and> mt = None then PlainInfo fi
         else overlayFileInfo fi om mt)"

definition Stat :: "env \<Rightarrow> Options \<Rightarrow> live \<Rightarrow> string \<Rightarrow> VFS \<Rightarrow> (error + FileInfo) \<times> VFS" where
  "Stat E opt L filename v =
     (case live_Stat L of
        Inl err \<Rightarrow> (Inl err, v)
      | Inr fi \<Rightarrow>
          (case setSys E opt fi v of
             (fi, v1) \<Rightarrow>
               (if PersistMetadata opt then
                  (let store = \<lparr>Ext = PosixMetadataExtension opt\<rparr>
                   in if \<not> IsSidecarPath store filename then
                        (case Load E store filename v1 of
                           ((m, None), v2) \<Rightarrow> (Inr (withOverlayFileInfo E fi m), v2)
                         | ((m, Some err2), v2) \<Rightarrow> (Inr (PlainInfo fi), v2))
                      else (Inr (PlainInfo fi), v1))
                else (Inr (PlainInfo fi), v1))))"

text \<open>
  \<^verbatim>\<open>Chmod\<close>, \<^verbatim>\<open>Chown\<close> and \<^verbatim>\<open>Chtimes\<close>. The deferred \<^verbatim>\<open>file.Close()\<close> only logs its
  error. \<^verbatim>\<open>uid\<close> and \<^verbatim>\<open>gid\<close> are Go \<^verbatim>\<open>int\<close>s, converted by \<^verbatim>\<open>uint64(...)\<close>.
\<close>

definition Chmod :: "env \<Rightarrow> Options \<Rightarrow> live \<Rightarrow> string \<Rightarrow> FileMode \<Rightarrow> VFS \<Rightarrow> error option \<times> VFS" where
  "Chmod E opt L name mode v =
     (case live_Open L of
        Some err \<Rightarrow> (Some err, v)
      | None \<Rightarrow>
          (let err = live_Chmod L;
               err = (if err = Some ENOSYS then None else err)
           in if err = None \<and> PersistMetadata opt then
                (let store = \<lparr>Ext = PosixMetadataExtension opt\<rparr>
                 in if \<not> IsSidecarPath store name then
                      (let s = FormatPosixMode mode False;
                           m = PosixMeta_zero\<lparr>Mode := Some s\<rparr>
                       in (err, snd (Save E store name m v)))
                    else (err, v))
              else (err, v)))"

definition Chown :: "env \<Rightarrow> Options \<Rightarrow> live \<Rightarrow> string \<Rightarrow> int \<Rightarrow> int \<Rightarrow> VFS \<Rightarrow> error option \<times> VFS" where
  "Chown E opt L name uid gid v =
     (case live_Open L of
        Some err \<Rightarrow> (Some err, v)
      | None \<Rightarrow>
          (let err = live_Chown L
           in if err = None \<and> PersistMetadata opt then
                (let store = \<lparr>Ext = PosixMetadataExtension opt\<rparr>
                 in if \<not> IsSidecarPath store name then
                      (let u = FormatUint (unat (word_of_int uid :: 64 word)) 10;
                           g = FormatUint (unat (word_of_int gid :: 64 word)) 10;
                           m = PosixMeta_zero\<lparr>UID := Some u, GID := Some g\<rparr>
                       in (err, snd (Save E store name m v)))
                    else (err, v))
              else (err, v)))"

definition Chtimes :: "env \<Rightarrow> Options \<Rightarrow> live \<Rightarrow> string \<Rightarrow> Time \<Rightarrow> Time \<Rightarrow> VFS \<Rightarrow> error option \<times> VFS" where
  "Chtimes E opt L name atime mtime v =
     (let err = live_Chtimes L
      in if err = None \<and> PersistMetadata opt then
           (let store = \<lparr>Ext = PosixMetadataExtension opt\<rparr>
            in if \<not> IsSidecarPath store name then
                 (let a = FormatRFC3339 E atime;
                      m = FormatRFC3339 E mtime;
                      meta = PosixMeta_zero\<lparr>Atime := Some a, Mtime := Some m\<rparr>
                  in (err, snd (Save E store name meta v)))
               else (err, v))
         else (err, v))"

section \<open>An instance of the parameters\<close>

text \<open>
  A concrete \<open>env\<close> on which the operations can be run. Its JSON codec writes what
  \<^verbatim>\<open>json.Marshal\<close> writes for a \<^verbatim>\<open>PosixMeta\<close> whose strings need no escape but that of the
  quote and the backslash (members in the order of the struct, \<^verbatim>\<open>nil\<close> fields left out),
  and reads objects of string members written without white space, dropping members it
  does not know. Its times are UTC, written and read as \<^verbatim>\<open>2006-01-02T15:04:05Z\<close>.
\<close>

definition dq :: char where
  "dq = CHR 0x22"

definition bs :: char where
  "bs = CHR 0x5C"

definition json_string :: "string \<Rightarrow> string" where
  "json_string s = [dq] @ concat (map (\<lambda>c. if c = dq \<or> c = bs then [bs, c] else [c]) s) @ [dq]"

definition json_member :: "string \<Rightarrow> string option \<Rightarrow> string list" where
  "json_member k x = (case x of None \<Rightarrow> [] | Some s \<Rightarrow> [json_string k @ '':'' @ json_string s])"

fun join :: "string list \<Rightarrow> string" where
  "join [] = []"
| "join [x] = x"
| "join (x # y # ys) = x @ '','' @ join (y # ys)"

definition go_Marshal :: "PosixMeta \<Rightarrow> error + string" where
  "go_Marshal m =
     Inr (''{'' @ join (json_member ''mode'' (Mode m) @ json_member ''uid'' (UID m)
                        @ json_member ''gid'' (GID m) @ json_member ''mtime'' (Mtime m)
                        @ json_member ''atime'' (Atime m) @ json_member ''btime'' (Btime m))
          @ ''}'')"

text \<open>The rest of a string literal after its opening quote, and what follows it.\<close>

fun read_string :: "string \<Rightarrow> string \<Rightarrow> (string \<times> string) option" where
  "read_string acc [] = None"
| "read_string acc [c] = (if c = dq then Some (rev acc, []) else None)"
| "read_string acc (c # d # ds) =
     (if c = dq then Some (rev acc, d # ds)
      else if c = bs then
        (if d = dq \<or> d = bs then read_string (d # acc) ds else None)
      else read_string (c # acc) (d # ds))"

definition set_member :: "string \<Rightarrow> string \<Rightarrow> PosixMeta \<Rightarrow> PosixMeta" where
  "set_member k x m =
     (if k = ''mode'' then m\<lparr>Mode := Some x\<rparr>
      else if k = ''uid'' then m\<lparr>UID := Some x\<rparr>
      else if k = ''gid'' then m\<lparr>GID := Some x\<rparr>
      else if k = ''mtime'' then m\<lparr>Mtime := Some x\<rparr>
      else if k = ''atime'' then m\<lparr>Atime := Some x\<rparr>
      else if k = ''btime'' then m\<lparr>Btime := Some x\<rparr>
      else m)"

text \<open>The members of an object; the first argument bounds their number.\<close>

fun read_members :: "nat \<Rightarrow> PosixMeta \<Rightarrow> string \<Rightarrow> error + PosixMeta" where
  "read_members 0 m s = Inl JSONError"
| "read_members (Suc n) m [] = Inl JSONError"
| "read_members (Suc n) m (q # s1) =
     (if q \<noteq> dq then Inl JSONError
      else
        (case read_string [] s1 of
           None \<Rightarrow> Inl JSONError
         | Some (k, s2) \<Rightarrow>
             (case s2 of
                c # q2 # s3 \<Rightarrow>
                  (if c \<noteq> CHR '':'' \<or> q2 \<noteq> dq then Inl JSONError
                   else
                     (case read_string [] s3 of
                        None \<Rightarrow> Inl JSONError
                      | Some (x, s4) \<Rightarrow>
                          (if s4 = ''}'' then Inr (set_member k x m)
                           else
                             (case s4 of
                                c2 # s5 \<Rightarrow>
                                  (if c2 = CHR '','' then read_members n (set_member k x m) s5
                                   else Inl JSONError)
                              | [] \<Rightarrow> Inl JSONError))))
              | _ \<Rightarrow> Inl JSONError)))"

definition go_Unmarshal :: "string \<Rightarrow> error + PosixMeta" where
  "go_Unmarshal b =
     (case b of
        [] \<Rightarrow> Inl JSONError
      | c # rest \<Rightarrow>
          (if c \<noteq> CHR ''{'' then Inl JSONError
           else if rest = ''}'' then Inr PosixMeta_zero
           else read_members (length rest) PosixMeta_zero rest))"

definition pad2 :: "int \<Rightarrow> string" where
  "pad2 n = [digit_char (nat (n div 10 mod 10)), digit_char (nat (n mod 10))]"

definition utc_FormatRFC3339 :: "Time \<Rightarrow> string" where
  "utc_FormatRFC3339 t =
     (let d = t div 86400;
          s = t mod 86400;
          z = d + 306;
          era = z div 146097;
          doe = z mod 146097;
          yoe = (doe - doe div 1460 + doe div 36524 - doe div 146096) div 365;
          doy = doe - (365 * yoe + yoe div 4 - yoe div 100);
          mp = (5 * doy + 2) div 153;
          dd = doy - (153 * mp + 2) div 5 + 1;
          mm = (if mp < 10 then mp + 3 else mp - 9);
          yy = yoe + era * 400 + (if mm \<le> 2 then 1 else 0)
      in pad2 (yy div 100) @ pad2 yy @ ''-'' @ pad2 mm @ ''-'' @ pad2 dd @ ''T''
         @ pad2 (s div 3600) @ '':'' @ pad2 (s div 60 mod 60) @ '':'' @ pad2 (s mod 60)
         @ ''Z'')"

definition days_in_month :: "int \<Rightarrow> int \<Rightarrow> int" where
  "days_in_month y m =
     (if m = 2 then (if y mod 4 = 0 \<and> (y mod 100 \<noteq> 0 \<or> y mod 400 = 0) then 29 else 28)
      else if m = 4 \<or> m = 6 \<or> m = 9 \<or> m = 11 then 30 else 31)"

definition number_at :: "string \<Rightarrow> nat \<Rightarrow> nat \<Rightarrow> error + nat" where
  "number_at s i n = parse_digits 10 9999 0 (take n (drop i s))"

definition utc_ParseRFC3339 :: "string \<Rightarrow> error + Time" where
  "utc_ParseRFC3339 s =
     (if length s \<noteq> 20 \<or> s ! 4 \<noteq> CHR ''-'' \<or> s ! 7 \<noteq> CHR ''-'' \<or> s ! 10 \<noteq> CHR ''T''
         \<or> s ! 13 \<noteq> CHR '':'' \<or> s ! 16 \<noteq> CHR '':'' \<or> s ! 19 \<noteq> CHR ''Z''
      then Inl ErrSyntax
      else
        (case (number_at s 0 4, number_at s 5 2, number_at s 8 2,
               number_at s 11 2, number_at s 14 2, number_at s 17 2) of
           (Inr yy, Inr mm, Inr dd, Inr h, Inr mi, Inr se) \<Rightarrow>
             (let y = int yy; m = int mm; d = int dd
              in if m < 1 \<or> 12 < m \<or> d < 1 \<or> days_in_month y m < d
                    \<or> 24 \<le> h \<or> 60 \<le> mi \<or> 60 \<le> se
                 then Inl ErrRange
                 else
                   (let y1 = (if m \<le> 2 then y - 1 else y);
                        era = y1 div 400;
                        yoe = y1 mod 400;
                        doy = (153 * (if 2 < m then m - 3 else m + 9) + 2) div 5 + d - 1;
                        doe = yoe * 365 + yoe div 4 - yoe div 100 + doy
                    in Inr ((era * 146097 + doe - 306) * 86400
                            + int h * 3600 + int mi * 60 + int se)))
         | _ \<Rightarrow> Inl ErrSyntax))"

definition go_env :: env where
  "go_env =
     \<lparr>fail = (\<lambda>c. None), short_write = 0, Marshal = go_Marshal, Unmarshal = go_Unmarshal,
      FormatRFC3339 = utc_FormatRFC3339, ParseRFC3339 = utc_ParseRFC3339,
      Now = 63844891200, translateError = (\<lambda>e. e)\<rparr>"

text \<open>The sidecar payloads of the examples.\<close>

definition json_mode_100644 :: string where
  "json_mode_100644 = ''{'' @ [dq] @ ''mode'' @ [dq] @ '':'' @ [dq] @ ''100644'' @ [dq] @ ''}''"

definition json_uid_1000 :: string where
  "json_uid_1000 = ''{'' @ [dq] @ ''uid'' @ [dq] @ '':'' @ [dq] @ ''1000'' @ [dq] @ ''}''"

definition json_mode_100644_uid_1000 :: string where
  "json_mode_100644_uid_1000 =
     ''{'' @ [dq] @ ''mode'' @ [dq] @ '':'' @ [dq] @ ''100644'' @ [dq] @ '',''
     @ [dq] @ ''uid'' @ [dq] @ '':'' @ [dq] @ ''1000'' @ [dq] @ ''}''"

text \<open>
  The store of the examples, with the default suffix, and three states of the VFS: no
  file at all, a sidecar of \<^verbatim>\<open>file\<close> that holds a mode, and one that is not JSON.
\<close>

definition posix_store :: PosixMetaStore where
  "posix_store = \<lparr>Ext = ''.posixmeta''\<rparr>"

definition vfs_empty :: VFS where
  "vfs_empty = \<lparr>files = Map.empty, trace = []\<rparr>"

definition vfs_mode :: VFS where
  "vfs_mode = \<lparr>files = [''file.posixmeta'' \<mapsto> json_mode_100644], trace = []\<rparr>"

definition vfs_corrupt :: VFS where
  "vfs_corrupt = \<lparr>files = [''file.posixmeta'' \<mapsto> ''not json''], trace = []\<rparr>"

text \<open>A state whose sidecar of \<^verbatim>\<open>file\<close> has no bytes.\<close>

definition vfs_zero_bytes :: VFS where
  "vfs_zero_bytes = \<lparr>files = [''file.posixmeta'' \<mapsto> []], trace = []\<rparr>"

text \<open>
  For the adapters: options with persistence on and the default suffix, the tracked file
  \<^verbatim>\<open>file\<close> as the VFS reports it, live calls that all succeed, a \<^verbatim>\<open>file.Chmod\<close> that is
  not implemented and one that fails, a request that sets the mode, and an empty
  \<^verbatim>\<open>fuse.Attr\<close>.
\<close>

definition persist_opt :: Options where
  "persist_opt =
     \<lparr>Opt_UID = 1000, Opt_GID = 1000, PersistMetadata = True,
      PosixMetadataExtension = ''.posixmeta'', NoModTime = False, AttrTimeout = 1\<rparr>"

definition file_node :: Node where
  "file_node =
     \<lparr>n_Path = ''file'', n_Inode = 7, n_Size = 1000, n_Mode = 0x1A4, n_ModTime = 63844891200,
      n_Sys = None\<rparr>"

definition live_ok :: live where
  "live_ok =
     \<lparr>live_Truncate = None, live_SetModTime = None, live_Stat = Inr file_node,
      live_Open = None, live_Chmod = None, live_Chown = None, live_Chtimes = None\<rparr>"

definition live_chmod_enosys :: live where
  "live_chmod_enosys = live_ok\<lparr>live_Chmod := Some ENOSYS\<rparr>"

definition live_chmod_fails :: live where
  "live_chmod_fails = live_ok\<lparr>live_Chmod := Some IOError\<rparr>"

definition req_mode :: SetattrRequest where
  "req_mode =
     \<lparr>Valid_Size = False, Valid_Mode = True, Valid_Uid = False, Valid_Gid = False,
      Valid_Atime = False, Valid_AtimeNow = False, Valid_Mtime = False,
      Valid_MtimeNow = False, req_Size = 0, req_Mode = 0x1A4, req_Uid = 0, req_Gid = 0,
      req_Atime = 0, req_Mtime = 0\<rparr>"

definition attr_zero :: Attr where
  "attr_zero =
     \<lparr>a_Valid = 0, a_Size = 0, a_Blocks = 0, a_Atime = 0, a_Mtime = 0, a_Ctime = 0,
      a_Mode = 0, a_Uid = 0, a_Gid = 0\<rparr>"

text \<open>
  The instance with one call that fails with an I/O error; a failing write leaves three
  bytes behind.
\<close>

definition failing :: "vfs_call \<Rightarrow> env" where
  "failing bad =
     go_env\<lparr>fail := (\<lambda>c. if c = bad then Some IOError else None), short_write := 3\<rparr>"

text \<open>
  The spec's class \<^emph>\<open>NotFound\<close> of errors: \<^verbatim>\<open>fs.ErrorObjectNotFound\<close>, which the store
  returns itself, and \<^verbatim>\<open>vfs.ENOENT\<close>, with which a file primitive reports a path that
  does not exist.
\<close>

definition NotFound :: "error \<Rightarrow> bool" where
  "NotFound e = (e = ErrorObjectNotFound \<or> e = ENOENT)"

section \<open>Mode strings\<close>

lemmas mode_eval =
  FormatPosixMode_def ParsePosixMode_def ParseUint_def FormatUint.simps digit_char_def
  digits_def

text \<open>
  C9. \<^verbatim>\<open>FormatPosixMode\<close> of the permission bits 0644 (420, hexadecimal 1A4) of a regular
  file is \<^verbatim>\<open>"100644"\<close>, that of the bits 0755 (493, hexadecimal 1ED) of a directory is
  \<^verbatim>\<open>"40755"\<close>, and \<^verbatim>\<open>ParsePosixMode\<close> of either string gives the permission bits back
  together with the type bit: \<^verbatim>\<open>S_IFREG\<close> (hexadecimal 8000) for the file,
  \<^verbatim>\<open>S_IFDIR\<close> (hexadecimal 4000) for the directory.
\<close>

theorem mode_encoding_examples:
  "FormatPosixMode 0x1A4 False = ''100644''
   \<and> FormatPosixMode 0x1ED True = ''40755''
   \<and> ParsePosixMode (FormatPosixMode 0x1A4 False) = 0x1A4 OR 0x8000
   \<and> ParsePosixMode (FormatPosixMode 0x1ED True) = 0x1ED OR 0x4000"
  by (simp add: mode_eval)

section \<open>Sidecar paths\<close>

lemma HasSuffix_append [simp]: "HasSuffix (p @ e) e"
  by (simp add: HasSuffix_def)

lemma TrimSuffix_append [simp]: "TrimSuffix (p @ e) e = p"
  by (simp add: TrimSuffix_def)

lemma TrimSuffix_none: "\<not> HasSuffix p e \<Longrightarrow> TrimSuffix p e = p"
  by (simp add: TrimSuffix_def)

text \<open>
  C6, as the code has it. The generic store removes one trailing \<^verbatim>\<open>/\<close> from the tracked
  path, if there is one, and appends its suffix, so that \<^verbatim>\<open>p/\<close> and \<^verbatim>\<open>p\<close> share a
  sidecar path whenever \<^verbatim>\<open>p\<close> does not itself end in \<^verbatim>\<open>/\<close>. The POSIX store appends
  its suffix, or \<^verbatim>\<open>.posixmeta\<close> when the suffix is empty, to the tracked path as it is
  given: it strips nothing.
\<close>

theorem sidecar_path_of_both_stores:
  "sidecarStore_name g p = TrimSuffix p ''/'' @ ext g
   \<and> sidecarStore_name g (p @ ''/'') = p @ ext g
   \<and> (\<not> HasSuffix p ''/'' \<longrightarrow> sidecarStore_name g (p @ ''/'') = sidecarStore_name g p)
   \<and> metaPath s p = p @ (if Ext s = [] then ''.posixmeta'' else Ext s)"
  by (simp add: sidecarStore_name_def metaPath_def TrimSuffix_none)

theorem sidecar_path_of_both_stores_witness:
  "\<not> HasSuffix ''dir'' ''/''
   \<and> sidecarStore_name \<lparr>ext = ''.meta''\<rparr> (''dir'' @ ''/'') = ''dir.meta''
   \<and> sidecarStore_name \<lparr>ext = ''.meta''\<rparr> ''dir'' = ''dir.meta''
   \<and> metaPath posix_store ''dir'' = ''dir.posixmeta''"
  using sidecar_path_of_both_stores [of "\<lparr>ext = ''.meta''\<rparr>" "''dir''" posix_store]
  by (simp add: HasSuffix_def TrimSuffix_def posix_store_def)

text \<open>
  The claim as it is worded fails on the POSIX store: the sidecar path of \<^verbatim>\<open>dir/\<close> keeps
  the separator, and differs from that of \<^verbatim>\<open>dir\<close>.
\<close>

theorem posix_store_keeps_trailing_separator:
  "metaPath posix_store ''dir/'' = ''dir/.posixmeta''
   \<and> metaPath posix_store ''dir/'' \<noteq> TrimSuffix ''dir/'' ''/'' @ Ext posix_store
   \<and> metaPath posix_store ''dir/'' \<noteq> metaPath posix_store ''dir''"
  by (simp add: metaPath_def posix_store_def TrimSuffix_def HasSuffix_def)

section \<open>The file primitives\<close>

lemmas vfs_defs =
  Vfs_ReadFile_def Vfs_Create_def Vfs_Write_def Vfs_Close_def Vfs_Rename_def
  Vfs_Remove_def Vfs_Stat_def called_def

subsection \<open>What each primitive returns, leaves in the files, and records\<close>

lemma ReadFile_fst:
  "fst (Vfs_ReadFile E p v) =
     (case fail E (OpReadFile p) of Some e \<Rightarrow> Inl e
      | None \<Rightarrow> (case files v p of None \<Rightarrow> Inl ENOENT | Some b \<Rightarrow> Inr b))"
  by (simp add: vfs_defs split: option.splits)

lemma ReadFile_files [simp]: "files (snd (Vfs_ReadFile E p v)) = files v"
  by (simp add: vfs_defs split: option.splits)

lemma ReadFile_trace [simp]:
  "trace (snd (Vfs_ReadFile E p v)) = trace v @ [(OpReadFile p, files v)]"
  by (simp add: vfs_defs split: option.splits)

lemma Create_fst:
  "fst (Vfs_Create E p v) = (case fail E (OpCreate p) of Some e \<Rightarrow> Inl e | None \<Rightarrow> Inr p)"
  by (simp add: vfs_defs split: option.splits)

lemma Create_files:
  "files (snd (Vfs_Create E p v)) =
     (if fail E (OpCreate p) = None then (files v)(p \<mapsto> []) else files v)"
  by (auto simp: vfs_defs split: option.splits)

lemma Create_trace [simp]:
  "trace (snd (Vfs_Create E p v)) = trace v @ [(OpCreate p, files (snd (Vfs_Create E p v)))]"
  by (simp add: vfs_defs split: option.splits)

lemma Write_fst [simp]: "fst (Vfs_Write E h b v) = fail E (OpWrite h b)"
  by (simp add: vfs_defs split: option.splits)

lemma Write_files:
  "files (snd (Vfs_Write E h b v)) =
     (files v)(h \<mapsto> (if fail E (OpWrite h b) = None then b else take (short_write E) b))"
  by (auto simp: vfs_defs split: option.splits)

lemma Write_trace [simp]:
  "trace (snd (Vfs_Write E h b v)) = trace v @ [(OpWrite h b, files (snd (Vfs_Write E h b v)))]"
  by (simp add: vfs_defs split: option.splits)

lemma Close_fst [simp]: "fst (Vfs_Close E h v) = fail E (OpClose h)"
  by (simp add: vfs_defs)

lemma Close_files [simp]: "files (snd (Vfs_Close E h v)) = files v"
  by (simp add: vfs_defs)

lemma Close_trace [simp]: "trace (snd (Vfs_Close E h v)) = trace v @ [(OpClose h, files v)]"
  by (simp add: vfs_defs)

lemma Rename_fst:
  "fst (Vfs_Rename E old new v) =
     (case fail E (OpRename old new) of Some e \<Rightarrow> Some e
      | None \<Rightarrow> (case files v old of None \<Rightarrow> Some ENOENT | Some b \<Rightarrow> None))"
  by (simp add: vfs_defs split: option.splits)

lemma Rename_files:
  "files (snd (Vfs_Rename E old new v)) =
     (if fst (Vfs_Rename E old new v) = None
      then ((files v)(old := None))(new := files v old) else files v)"
  by (auto simp: vfs_defs split: option.splits)

lemma Rename_trace [simp]:
  "trace (snd (Vfs_Rename E old new v))
     = trace v @ [(OpRename old new, files (snd (Vfs_Rename E old new v)))]"
  by (simp add: vfs_defs split: option.splits)

lemma Remove_fst:
  "fst (Vfs_Remove E p v) =
     (case fail E (OpRemove p) of Some e \<Rightarrow> Some e
      | None \<Rightarrow> (case files v p of None \<Rightarrow> Some ENOENT | Some b \<Rightarrow> None))"
  by (simp add: vfs_defs split: option.splits)

lemma Remove_files:
  "files (snd (Vfs_Remove E p v)) =
     (if fail E (OpRemove p) = None then (files v)(p := None) else files v)"
  by (auto simp: vfs_defs split: option.splits)

lemma Remove_trace [simp]:
  "trace (snd (Vfs_Remove E p v)) = trace v @ [(OpRemove p, files (snd (Vfs_Remove E p v)))]"
  by (simp add: vfs_defs split: option.splits)

lemma Load_files [simp]: "files (snd (Load E s path v)) = files v"
  by (simp add: Load_def split_beta split: sum.splits)

lemma Load_trace:
  "trace (snd (Load E s path v)) =
     (if IsSidecarPath s path then trace v
      else trace v @ [(OpReadFile (metaPath s path), files v)])"
  by (simp add: Load_def split_beta split: sum.splits)

lemma Load_fst:
  "fst (Load E s path v) =
     (if IsSidecarPath s path then (PosixMeta_zero, Some ErrorObjectNotFound)
      else (case fst (Vfs_ReadFile E (metaPath s path) v) of
              Inl err \<Rightarrow> (PosixMeta_zero, Some err)
            | Inr b \<Rightarrow> if b = [] then (PosixMeta_zero, Some ErrorObjectNotFound)
                       else (case Unmarshal E b of Inl err \<Rightarrow> (PosixMeta_zero, Some err)
                             | Inr m \<Rightarrow> (m, None))))"
  by (simp add: Load_def split_beta split: sum.splits)

text \<open>Save, with every result of a primitive named by projections.\<close>

lemma Save_unfold:
  "\<not> IsSidecarPath s path \<Longrightarrow>
   Save E s path m v =
     (let v1 = snd (Load E s path v);
          cur = merge (fst (fst (Load E s path v))) m;
          p = metaPath s path;
          tmp = p @ ''.tmp'';
          v2 = snd (Vfs_Create E tmp v1)
      in case fail E (OpCreate tmp) of
           Some err \<Rightarrow> (Some err, v2)
         | None \<Rightarrow>
            (case Marshal E cur of
               Inl err \<Rightarrow> (Some err, snd (Vfs_Remove E tmp (snd (Vfs_Close E tmp v2))))
             | Inr enc \<Rightarrow>
                 (let v3 = snd (Vfs_Write E tmp enc v2) in
                  case fail E (OpWrite tmp enc) of
                    Some err \<Rightarrow> (Some err, snd (Vfs_Remove E tmp (snd (Vfs_Close E tmp v3))))
                  | None \<Rightarrow>
                     (let v4 = snd (Vfs_Close E tmp v3) in
                      case fail E (OpClose tmp) of
                        Some err \<Rightarrow> (Some err, snd (Vfs_Remove E tmp v4))
                      | None \<Rightarrow>
                         (let v5 = snd (Vfs_Rename E tmp p v4) in
                          case fail E (OpRename tmp p) of
                            Some err \<Rightarrow> (Some err, snd (Vfs_Remove E tmp v5))
                          | None \<Rightarrow> (None, v5))))))"
  by (simp add: Save_def Let_def split_beta Create_fst Rename_fst Create_files Write_files
      split: option.splits sum.splits)


lemma tmp_neq [simp]: "p @ ''.tmp'' \<noteq> p" "p \<noteq> p @ ''.tmp''"
  by simp_all

lemmas Save_simps =
  Save_unfold Let_def Create_files Write_files Rename_files Rename_fst Remove_files Load_trace

lemma Save_failure_keeps_sidecar:
  assumes "\<not> IsSidecarPath s path" and "fst (Save E s path m v) = Some err"
  shows "files (snd (Save E s path m v)) (metaPath s path) = files v (metaPath s path)"
  using assms by (auto simp: Save_simps split: option.splits sum.splits)

lemma Save_failure_last_call:
  assumes "\<not> IsSidecarPath s path"
    and "fail E (OpCreate (metaPath s path @ ''.tmp'')) = None"
    and "fst (Save E s path m v) = Some err"
  shows "last (trace (snd (Save E s path m v)))
         = (OpRemove (metaPath s path @ ''.tmp''), files (snd (Save E s path m v)))"
  using assms by (auto simp: Save_simps split: option.splits sum.splits)

lemma Save_failure_tmp_gone:
  assumes "\<not> IsSidecarPath s path"
    and "fail E (OpCreate (metaPath s path @ ''.tmp'')) = None"
    and "fst (Save E s path m v) = Some err"
    and "fail E (OpRemove (metaPath s path @ ''.tmp'')) = None"
  shows "files (snd (Save E s path m v)) (metaPath s path @ ''.tmp'') = None"
  using assms by (auto simp: Save_simps split: option.splits sum.splits)

lemma Save_trace_extends:
  "\<not> IsSidecarPath s path \<Longrightarrow>
     take (length (trace v)) (trace (snd (Save E s path m v))) = trace v"
  by (simp add: Save_simps split: option.splits sum.splits)

lemma Save_snapshots:
  assumes "\<not> IsSidecarPath s path"
    and "(c, fs) \<in> set (drop (length (trace v)) (trace (snd (Save E s path m v))))"
  shows "fs (metaPath s path) = files v (metaPath s path)
         \<or> (\<exists>enc. Marshal E (merge (fst (fst (Load E s path v))) m) = Inr enc
                  \<and> fs (metaPath s path) = Some enc)"
  using assms by (auto simp: Save_simps split: option.splits sum.splits if_splits)

lemma Save_failure_snapshots:
  assumes "\<not> IsSidecarPath s path"
    and "fst (Save E s path m v) = Some err"
    and "(c, fs) \<in> set (drop (length (trace v)) (trace (snd (Save E s path m v))))"
  shows "fs (metaPath s path) = files v (metaPath s path)"
  using assms by (auto simp: Save_simps split: option.splits sum.splits if_splits)

lemma Save_success:
  assumes "\<not> IsSidecarPath s path" and "fst (Save E s path m v) = None"
  shows "\<exists>enc. Marshal E (merge (fst (fst (Load E s path v))) m) = Inr enc
           \<and> files (snd (Save E s path m v)) (metaPath s path) = Some enc
           \<and> files (snd (Save E s path m v)) (metaPath s path @ ''.tmp'') = None"
  using assms by (auto simp: Save_simps split: option.splits sum.splits if_splits)


section \<open>Failure of a save\<close>

lemmas run_defs =
  posix_store_def vfs_empty_def vfs_mode_def vfs_corrupt_def vfs_zero_bytes_def go_env_def failing_def
  IsSidecarPath_def HasSuffix_def metaPath_def

lemmas json_defs =
  go_Marshal_def go_Unmarshal_def json_member_def json_string_def set_member_def
  json_mode_100644_def json_uid_1000_def json_mode_100644_uid_1000_def dq_def bs_def
  PosixMeta_zero_def merge_def

lemma Load_independent_of_trace:
  "files v1 (metaPath s path) = files v2 (metaPath s path) \<Longrightarrow>
     fst (Load E s path v1) = fst (Load E s path v2)"
  by (simp add: Load_fst ReadFile_fst split: option.splits)

lemma Save_step_outcomes:
  assumes "\<not> IsSidecarPath s path"
    and "fail E (OpCreate (metaPath s path @ ''.tmp'')) = None"
  shows "Marshal E (merge (fst (fst (Load E s path v))) m) = Inl err \<Longrightarrow>
           fst (Save E s path m v) = Some err"
    and "Marshal E (merge (fst (fst (Load E s path v))) m) = Inr enc \<Longrightarrow>
         fail E (OpWrite (metaPath s path @ ''.tmp'') enc) = Some err \<Longrightarrow>
           fst (Save E s path m v) = Some err"
    and "Marshal E (merge (fst (fst (Load E s path v))) m) = Inr enc \<Longrightarrow>
         fail E (OpWrite (metaPath s path @ ''.tmp'') enc) = None \<Longrightarrow>
         fail E (OpClose (metaPath s path @ ''.tmp'')) = Some err \<Longrightarrow>
           fst (Save E s path m v) = Some err"
    and "Marshal E (merge (fst (fst (Load E s path v))) m) = Inr enc \<Longrightarrow>
         fail E (OpWrite (metaPath s path @ ''.tmp'') enc) = None \<Longrightarrow>
         fail E (OpClose (metaPath s path @ ''.tmp'')) = None \<Longrightarrow>
         fail E (OpRename (metaPath s path @ ''.tmp'') (metaPath s path)) = Some err \<Longrightarrow>
           fst (Save E s path m v) = Some err"
    and "Marshal E (merge (fst (fst (Load E s path v))) m) = Inr enc \<Longrightarrow>
         fail E (OpWrite (metaPath s path @ ''.tmp'') enc) = None \<Longrightarrow>
         fail E (OpClose (metaPath s path @ ''.tmp'')) = None \<Longrightarrow>
         fail E (OpRename (metaPath s path @ ''.tmp'') (metaPath s path)) = None \<Longrightarrow>
           fst (Save E s path m v) = None"
  using assms by (simp_all add: Save_simps)

lemma Save_step_calls:
  assumes "\<not> IsSidecarPath s path"
    and "fail E (OpCreate (metaPath s path @ ''.tmp'')) = None"
  shows "Marshal E (merge (fst (fst (Load E s path v))) m) = Inl err \<Longrightarrow>
           map fst (drop (length (trace v)) (trace (snd (Save E s path m v))))
             = [OpReadFile (metaPath s path), OpCreate (metaPath s path @ ''.tmp''),
                OpClose (metaPath s path @ ''.tmp''), OpRemove (metaPath s path @ ''.tmp'')]"
    and "Marshal E (merge (fst (fst (Load E s path v))) m) = Inr enc \<Longrightarrow>
         fail E (OpWrite (metaPath s path @ ''.tmp'') enc) = Some err \<Longrightarrow>
           map fst (drop (length (trace v)) (trace (snd (Save E s path m v))))
             = [OpReadFile (metaPath s path), OpCreate (metaPath s path @ ''.tmp''),
                OpWrite (metaPath s path @ ''.tmp'') enc,
                OpClose (metaPath s path @ ''.tmp''), OpRemove (metaPath s path @ ''.tmp'')]"
    and "Marshal E (merge (fst (fst (Load E s path v))) m) = Inr enc \<Longrightarrow>
         fail E (OpWrite (metaPath s path @ ''.tmp'') enc) = None \<Longrightarrow>
         fail E (OpClose (metaPath s path @ ''.tmp'')) = Some err \<Longrightarrow>
           map fst (drop (length (trace v)) (trace (snd (Save E s path m v))))
             = [OpReadFile (metaPath s path), OpCreate (metaPath s path @ ''.tmp''),
                OpWrite (metaPath s path @ ''.tmp'') enc,
                OpClose (metaPath s path @ ''.tmp''), OpRemove (metaPath s path @ ''.tmp'')]"
    and "Marshal E (merge (fst (fst (Load E s path v))) m) = Inr enc \<Longrightarrow>
         fail E (OpWrite (metaPath s path @ ''.tmp'') enc) = None \<Longrightarrow>
         fail E (OpClose (metaPath s path @ ''.tmp'')) = None \<Longrightarrow>
         fail E (OpRename (metaPath s path @ ''.tmp'') (metaPath s path)) = Some err \<Longrightarrow>
           map fst (drop (length (trace v)) (trace (snd (Save E s path m v))))
             = [OpReadFile (metaPath s path), OpCreate (metaPath s path @ ''.tmp''),
                OpWrite (metaPath s path @ ''.tmp'') enc,
                OpClose (metaPath s path @ ''.tmp''),
                OpRename (metaPath s path @ ''.tmp'') (metaPath s path),
                OpRemove (metaPath s path @ ''.tmp'')]"
    and "Marshal E (merge (fst (fst (Load E s path v))) m) = Inr enc \<Longrightarrow>
         fail E (OpWrite (metaPath s path @ ''.tmp'') enc) = None \<Longrightarrow>
         fail E (OpClose (metaPath s path @ ''.tmp'')) = None \<Longrightarrow>
         fail E (OpRename (metaPath s path @ ''.tmp'') (metaPath s path)) = None \<Longrightarrow>
           map fst (drop (length (trace v)) (trace (snd (Save E s path m v))))
             = [OpReadFile (metaPath s path), OpCreate (metaPath s path @ ''.tmp''),
                OpWrite (metaPath s path @ ''.tmp'') enc,
                OpClose (metaPath s path @ ''.tmp''),
                OpRename (metaPath s path @ ''.tmp'') (metaPath s path)]"
  using assms by (simp_all add: Save_simps)

lemma Save_step_success_files:
  assumes "\<not> IsSidecarPath s path"
    and "fail E (OpCreate (metaPath s path @ ''.tmp'')) = None"
    and "Marshal E (merge (fst (fst (Load E s path v))) m) = Inr enc"
    and "fail E (OpWrite (metaPath s path @ ''.tmp'') enc) = None"
    and "fail E (OpClose (metaPath s path @ ''.tmp'')) = None"
    and "fail E (OpRename (metaPath s path @ ''.tmp'') (metaPath s path)) = None"
  shows "files (snd (Save E s path m v)) (metaPath s path) = Some enc"
    and "files (snd (Save E s path m v)) (metaPath s path @ ''.tmp'') = None"
  using assms by (simp_all add: Save_simps)


text \<open>
  C1. On a path that is not a sidecar path, once \<^verbatim>\<open>Save\<close> has created the temporary
  file: when the encoding of the merged record fails, or the write to the temporary path,
  or the close, or the rename of the temporary path onto the sidecar path, \<^verbatim>\<open>Save\<close>
  returns that error, and the calls it has made are exactly those of the source up to the
  failing step, followed (after a close, when the encoding or the write failed) by the
  removal of the temporary path. Whenever \<^verbatim>\<open>Save\<close> returns an error after the create,
  the last call it made is that removal; unless the removal fails itself, no file is left
  at the temporary path; the sidecar file is what it was, so a \<^verbatim>\<open>Load\<close> that follows
  returns what a \<^verbatim>\<open>Load\<close> before returned; and every state that a reader could see in
  between has the prior content at the sidecar path. When no step fails \<^verbatim>\<open>Save\<close> returns
  \<^verbatim>\<open>nil\<close>, the sidecar file holds the complete encoding and the temporary path is gone.
  Whatever the outcome, \<^verbatim>\<open>Save\<close> only adds to the calls recorded, and every state it
  passes through has at the sidecar path the prior content or the complete encoding of
  the merged record.
\<close>

theorem Save_failure_leaves_prior_record:
  assumes "\<not> IsSidecarPath s path"
  shows
   "(fail E (OpCreate (metaPath s path @ ''.tmp'')) = None
       \<and> fst (Save E s path m v) = Some err \<longrightarrow>
         last (trace (snd (Save E s path m v)))
           = (OpRemove (metaPath s path @ ''.tmp''), files (snd (Save E s path m v)))
         \<and> (fail E (OpRemove (metaPath s path @ ''.tmp'')) = None \<longrightarrow>
              files (snd (Save E s path m v)) (metaPath s path @ ''.tmp'') = None)
         \<and> files (snd (Save E s path m v)) (metaPath s path) = files v (metaPath s path)
         \<and> fst (Load E s path (snd (Save E s path m v))) = fst (Load E s path v)
         \<and> (\<forall>(c, fs) \<in> set (drop (length (trace v)) (trace (snd (Save E s path m v)))).
               fs (metaPath s path) = files v (metaPath s path)))
    \<and> take (length (trace v)) (trace (snd (Save E s path m v))) = trace v
    \<and> (\<forall>(c, fs) \<in> set (drop (length (trace v)) (trace (snd (Save E s path m v)))).
          fs (metaPath s path) = files v (metaPath s path)
          \<or> (\<exists>enc. Marshal E (merge (fst (fst (Load E s path v))) m) = Inr enc
                   \<and> fs (metaPath s path) = Some enc))
    \<and> (fail E (OpCreate (metaPath s path @ ''.tmp'')) = None
        \<and> Marshal E (merge (fst (fst (Load E s path v))) m) = Inl err \<longrightarrow>
          fst (Save E s path m v) = Some err
          \<and> map fst (drop (length (trace v)) (trace (snd (Save E s path m v))))
              = [OpReadFile (metaPath s path), OpCreate (metaPath s path @ ''.tmp''),
                 OpClose (metaPath s path @ ''.tmp''), OpRemove (metaPath s path @ ''.tmp'')])
    \<and> (fail E (OpCreate (metaPath s path @ ''.tmp'')) = None
        \<and> Marshal E (merge (fst (fst (Load E s path v))) m) = Inr enc
        \<and> fail E (OpWrite (metaPath s path @ ''.tmp'') enc) = Some err \<longrightarrow>
          fst (Save E s path m v) = Some err
          \<and> map fst (drop (length (trace v)) (trace (snd (Save E s path m v))))
              = [OpReadFile (metaPath s path), OpCreate (metaPath s path @ ''.tmp''),
                 OpWrite (metaPath s path @ ''.tmp'') enc,
                 OpClose (metaPath s path @ ''.tmp''), OpRemove (metaPath s path @ ''.tmp'')])
    \<and> (fail E (OpCreate (metaPath s path @ ''.tmp'')) = None
        \<and> Marshal E (merge (fst (fst (Load E s path v))) m) = Inr enc
        \<and> fail E (OpWrite (metaPath s path @ ''.tmp'') enc) = None
        \<and> fail E (OpClose (metaPath s path @ ''.tmp'')) = Some err \<longrightarrow>
          fst (Save E s path m v) = Some err
          \<and> map fst (drop (length (trace v)) (trace (snd (Save E s path m v))))
              = [OpReadFile (metaPath s path), OpCreate (metaPath s path @ ''.tmp''),
                 OpWrite (metaPath s path @ ''.tmp'') enc,
                 OpClose (metaPath s path @ ''.tmp''), OpRemove (metaPath s path @ ''.tmp'')])
    \<and> (fail E (OpCreate (metaPath s path @ ''.tmp'')) = None
        \<and> Marshal E (merge (fst (fst (Load E s path v))) m) = Inr enc
        \<and> fail E (OpWrite (metaPath s path @ ''.tmp'') enc) = None
        \<and> fail E (OpClose (metaPath s path @ ''.tmp'')) = None
        \<and> fail E (OpRename (metaPath s path @ ''.tmp'') (metaPath s path)) = Some err \<longrightarrow>
          fst (Save E s path m v) = Some err
          \<and> map fst (drop (length (trace v)) (trace (snd (Save E s path m v))))
              = [OpReadFile (metaPath s path), OpCreate (metaPath s path @ ''.tmp''),
                 OpWrite (metaPath s path @ ''.tmp'') enc,
                 OpClose (metaPath s path @ ''.tmp''),
                 OpRename (metaPath s path @ ''.tmp'') (metaPath s path),
                 OpRemove (metaPath s path @ ''.tmp'')])
    \<and> (fail E (OpCreate (metaPath s path @ ''.tmp'')) = None
        \<and> Marshal E (merge (fst (fst (Load E s path v))) m) = Inr enc
        \<and> fail E (OpWrite (metaPath s path @ ''.tmp'') enc) = None
        \<and> fail E (OpClose (metaPath s path @ ''.tmp'')) = None
        \<and> fail E (OpRename (metaPath s path @ ''.tmp'') (metaPath s path)) = None \<longrightarrow>
          fst (Save E s path m v) = None
          \<and> map fst (drop (length (trace v)) (trace (snd (Save E s path m v))))
              = [OpReadFile (metaPath s path), OpCreate (metaPath s path @ ''.tmp''),
                 OpWrite (metaPath s path @ ''.tmp'') enc,
                 OpClose (metaPath s path @ ''.tmp''),
                 OpRename (metaPath s path @ ''.tmp'') (metaPath s path)]
          \<and> files (snd (Save E s path m v)) (metaPath s path) = Some enc
          \<and> files (snd (Save E s path m v)) (metaPath s path @ ''.tmp'') = None)"
proof -
  have old:
    "(fail E (OpCreate (metaPath s path @ ''.tmp'')) = None
       \<and> fst (Save E s path m v) = Some err \<longrightarrow>
         last (trace (snd (Save E s path m v)))
           = (OpRemove (metaPath s path @ ''.tmp''), files (snd (Save E s path m v)))
         \<and> (fail E (OpRemove (metaPath s path @ ''.tmp'')) = None \<longrightarrow>
              files (snd (Save E s path m v)) (metaPath s path @ ''.tmp'') = None)
         \<and> files (snd (Save E s path m v)) (metaPath s path) = files v (metaPath s path)
         \<and> fst (Load E s path (snd (Save E s path m v))) = fst (Load E s path v)
         \<and> (\<forall>(c, fs) \<in> set (drop (length (trace v)) (trace (snd (Save E s path m v)))).
               fs (metaPath s path) = files v (metaPath s path)))"
  proof (intro conjI impI)
    assume f: "fail E (OpCreate (metaPath s path @ ''.tmp'')) = None
         \<and> fst (Save E s path m v) = Some err"
    then have c: "fail E (OpCreate (metaPath s path @ ''.tmp'')) = None"
      and e: "fst (Save E s path m v) = Some err" by simp_all
    show "last (trace (snd (Save E s path m v)))
             = (OpRemove (metaPath s path @ ''.tmp''), files (snd (Save E s path m v)))"
      using assms c e by (rule Save_failure_last_call)
    show k: "files (snd (Save E s path m v)) (metaPath s path) = files v (metaPath s path)"
      using assms e by (rule Save_failure_keeps_sidecar)
    show "fst (Load E s path (snd (Save E s path m v))) = fst (Load E s path v)"
      using k by (rule Load_independent_of_trace)
    show "\<forall>(c, fs) \<in> set (drop (length (trace v)) (trace (snd (Save E s path m v)))).
                 fs (metaPath s path) = files v (metaPath s path)"
      using Save_failure_snapshots [OF assms e] by blast
    show "files (snd (Save E s path m v)) (metaPath s path @ ''.tmp'') = None"
      if "fail E (OpRemove (metaPath s path @ ''.tmp'')) = None"
      using assms c e that by (rule Save_failure_tmp_gone)
  qed
  have ext: "take (length (trace v)) (trace (snd (Save E s path m v))) = trace v"
    using assms by (rule Save_trace_extends)
  have snap: "\<forall>(c, fs) \<in> set (drop (length (trace v)) (trace (snd (Save E s path m v)))).
          fs (metaPath s path) = files v (metaPath s path)
          \<or> (\<exists>enc. Marshal E (merge (fst (fst (Load E s path v))) m) = Inr enc
                   \<and> fs (metaPath s path) = Some enc)"
    using Save_snapshots [OF assms] by blast
  note o = Save_step_outcomes [OF assms] and c = Save_step_calls [OF assms]
    and f = Save_step_success_files [OF assms]
  show ?thesis
    apply (intro conjI)
    subgoal by (rule old)
    subgoal by (rule ext)
    subgoal by (rule snap)
    subgoal using o(1) c(1) by blast
    subgoal using o(2) c(2) by blast
    subgoal using o(3) c(3) by blast
    subgoal using o(4) c(4) by blast
    subgoal using o(5) c(5) f by blast
    done
qed


lemma not_sidecar_file [simp]: "\<not> IsSidecarPath posix_store ''file''"
  by (simp add: run_defs)

lemma metaPath_file [simp]: "metaPath posix_store ''file'' = ''file.posixmeta''"
  by (simp add: run_defs)

lemma Load_vfs_mode:
  "files v ''file.posixmeta'' = Some json_mode_100644 \<Longrightarrow> fail E (OpReadFile ''file.posixmeta'') = None
   \<Longrightarrow> Unmarshal E = go_Unmarshal \<Longrightarrow>
   fst (Load E posix_store ''file'' v) = (PosixMeta_zero\<lparr>Mode := Some ''100644''\<rparr>, None)"
  by (simp add: Load_fst ReadFile_fst json_defs)

lemma Marshal_mode_uid:
  "go_Marshal (merge (PosixMeta_zero\<lparr>Mode := Some ''100644''\<rparr>) (PosixMeta_zero\<lparr>UID := Some ''1000''\<rparr>))
     = Inr json_mode_100644_uid_1000"
  by (simp add: json_defs)

lemma failing_simps:
  "Marshal (failing bad) = go_Marshal" "Unmarshal (failing bad) = go_Unmarshal"
  "fail (failing bad) c = (if c = bad then Some IOError else None)"
  "short_write (failing bad) = 3"
  by (simp_all add: failing_def go_env_def)

theorem Save_failure_leaves_prior_record_witness:
  "\<not> IsSidecarPath posix_store ''file''
   \<and> fail (failing (OpRename ''file.posixmeta.tmp'' ''file.posixmeta''))
         (OpCreate ''file.posixmeta.tmp'') = None
   \<and> fail (failing (OpRename ''file.posixmeta.tmp'' ''file.posixmeta''))
         (OpRename ''file.posixmeta.tmp'' ''file.posixmeta'') = Some IOError
   \<and> Save (failing (OpRename ''file.posixmeta.tmp'' ''file.posixmeta'')) posix_store ''file''
         (PosixMeta_zero\<lparr>UID := Some ''1000''\<rparr>) vfs_mode
       = (Some IOError,
          \<lparr>files = [''file.posixmeta'' \<mapsto> json_mode_100644],
           trace = trace (snd (Save (failing (OpRename ''file.posixmeta.tmp'' ''file.posixmeta''))
                                 posix_store ''file''
                                 (PosixMeta_zero\<lparr>UID := Some ''1000''\<rparr>) vfs_mode))\<rparr>)
   \<and> files (snd (Save (failing (OpRename ''file.posixmeta.tmp'' ''file.posixmeta''))
                      posix_store ''file'' (PosixMeta_zero\<lparr>UID := Some ''1000''\<rparr>) vfs_mode))
         ''file.posixmeta.tmp'' = None
   \<and> fst (Load (failing (OpRename ''file.posixmeta.tmp'' ''file.posixmeta'')) posix_store ''file''
             (snd (Save (failing (OpRename ''file.posixmeta.tmp'' ''file.posixmeta''))
                      posix_store ''file'' (PosixMeta_zero\<lparr>UID := Some ''1000''\<rparr>) vfs_mode)))
       = (PosixMeta_zero\<lparr>Mode := Some ''100644''\<rparr>, None)
   \<and> map fst (trace (snd (Save (failing (OpRename ''file.posixmeta.tmp'' ''file.posixmeta''))
                                posix_store ''file''
                                (PosixMeta_zero\<lparr>UID := Some ''1000''\<rparr>) vfs_mode)))
       = [OpReadFile ''file.posixmeta'', OpCreate ''file.posixmeta.tmp'',
          OpWrite ''file.posixmeta.tmp'' json_mode_100644_uid_1000,
          OpClose ''file.posixmeta.tmp'',
          OpRename ''file.posixmeta.tmp'' ''file.posixmeta'',
          OpRemove ''file.posixmeta.tmp'']
   \<and> fail (failing (OpWrite ''file.posixmeta.tmp'' json_mode_100644_uid_1000))
         (OpWrite ''file.posixmeta.tmp'' json_mode_100644_uid_1000) = Some IOError
   \<and> fst (Save (failing (OpWrite ''file.posixmeta.tmp'' json_mode_100644_uid_1000))
              posix_store ''file'' (PosixMeta_zero\<lparr>UID := Some ''1000''\<rparr>) vfs_mode)
       = Some IOError
   \<and> files (snd (Save (failing (OpWrite ''file.posixmeta.tmp'' json_mode_100644_uid_1000))
                      posix_store ''file'' (PosixMeta_zero\<lparr>UID := Some ''1000''\<rparr>) vfs_mode))
         ''file.posixmeta.tmp'' = None
   \<and> files (snd (Save (failing (OpWrite ''file.posixmeta.tmp'' json_mode_100644_uid_1000))
                      posix_store ''file'' (PosixMeta_zero\<lparr>UID := Some ''1000''\<rparr>) vfs_mode))
         ''file.posixmeta'' = Some json_mode_100644"
proof -
  let ?E = "failing (OpRename ''file.posixmeta.tmp'' ''file.posixmeta'')"
  let ?W = "failing (OpWrite ''file.posixmeta.tmp'' json_mode_100644_uid_1000)"
  let ?m = "PosixMeta_zero\<lparr>UID := Some ''1000''\<rparr>"
  let ?v = "snd (Save ?E posix_store ''file'' ?m vfs_mode)"
  let ?w = "snd (Save ?W posix_store ''file'' ?m vfs_mode)"
  have a: "\<not> IsSidecarPath posix_store ''file''" by simp
  have fm: "files vfs_mode ''file.posixmeta'' = Some json_mode_100644"
    and tr: "trace vfs_mode = []"
    by (simp_all add: vfs_mode_def)
  have c: "fail ?E (OpCreate ''file.posixmeta.tmp'') = None"
    and r: "fail ?E (OpRemove ''file.posixmeta.tmp'') = None"
    and w: "fail ?E (OpWrite ''file.posixmeta.tmp'' json_mode_100644_uid_1000) = None"
    and cl: "fail ?E (OpClose ''file.posixmeta.tmp'') = None"
    and rn: "fail ?E (OpRename ''file.posixmeta.tmp'' ''file.posixmeta'') = Some IOError"
    by (simp_all add: failing_simps)
  have c': "fail ?W (OpCreate ''file.posixmeta.tmp'') = None"
    and r': "fail ?W (OpRemove ''file.posixmeta.tmp'') = None"
    and w': "fail ?W (OpWrite ''file.posixmeta.tmp'' json_mode_100644_uid_1000) = Some IOError"
    by (simp_all add: failing_simps)
  have l: "fst (Load ?E posix_store ''file'' vfs_mode)
             = (PosixMeta_zero\<lparr>Mode := Some ''100644''\<rparr>, None)"
    by (rule Load_vfs_mode) (simp_all add: fm failing_simps)
  have l': "fst (Load ?W posix_store ''file'' vfs_mode)
             = (PosixMeta_zero\<lparr>Mode := Some ''100644''\<rparr>, None)"
    by (rule Load_vfs_mode) (simp_all add: fm failing_simps)
  have mr: "Marshal ?E (merge (fst (fst (Load ?E posix_store ''file'' vfs_mode))) ?m)
              = Inr json_mode_100644_uid_1000"
    by (simp add: l failing_simps Marshal_mode_uid)
  have mr': "Marshal ?W (merge (fst (fst (Load ?W posix_store ''file'' vfs_mode))) ?m)
              = Inr json_mode_100644_uid_1000"
    by (simp add: l' failing_simps Marshal_mode_uid)
  note T = Save_failure_leaves_prior_record
             [OF a, of ?E ?m vfs_mode IOError json_mode_100644_uid_1000]
  note T' = Save_failure_leaves_prior_record
             [OF a, of ?W ?m vfs_mode IOError json_mode_100644_uid_1000]
  from T c w cl rn mr
  have e: "fst (Save ?E posix_store ''file'' ?m vfs_mode) = Some IOError"
    and calls: "map fst (trace ?v)
       = [OpReadFile ''file.posixmeta'', OpCreate ''file.posixmeta.tmp'',
          OpWrite ''file.posixmeta.tmp'' json_mode_100644_uid_1000,
          OpClose ''file.posixmeta.tmp'',
          OpRename ''file.posixmeta.tmp'' ''file.posixmeta'',
          OpRemove ''file.posixmeta.tmp'']"
    by (simp_all add: tr)
  from T c r e
  have t: "files ?v ''file.posixmeta.tmp'' = None"
    and k: "files ?v ''file.posixmeta'' = files vfs_mode ''file.posixmeta''"
    and g: "fst (Load ?E posix_store ''file'' ?v) = fst (Load ?E posix_store ''file'' vfs_mode)"
    by simp_all
  from T' c' w' mr'
  have e': "fst (Save ?W posix_store ''file'' ?m vfs_mode) = Some IOError"
    by simp
  from T' c' r' e'
  have t': "files ?w ''file.posixmeta.tmp'' = None"
    and k': "files ?w ''file.posixmeta'' = files vfs_mode ''file.posixmeta''"
    by simp_all
  have f: "files ?v = [''file.posixmeta'' \<mapsto> json_mode_100644]"
    by (rule ext) (simp add: Save_simps failing_simps vfs_mode_def go_Marshal_def l)
  have "?v = \<lparr>files = [''file.posixmeta'' \<mapsto> json_mode_100644], trace = trace ?v\<rparr>"
    using f by (cases ?v) simp
  with a c rn e t g l calls w' e' t' k' fm show ?thesis
    by (simp add: prod_eq_iff)
qed


section \<open>The recursion guard\<close>

lemma IsSidecarPath_metaPath: "Ext s \<noteq> [] \<Longrightarrow> IsSidecarPath s (metaPath s P)"
  by (simp add: IsSidecarPath_def metaPath_def)

text \<open>
  C2. With a suffix that is not empty, the sidecar path of any path is a sidecar path.
  On a sidecar path, \<^verbatim>\<open>Load\<close> returns \<^verbatim>\<open>fs.ErrorObjectNotFound\<close> with the zero record, and
  \<^verbatim>\<open>Save\<close>, \<^verbatim>\<open>Rename\<close> (with the sidecar path as the old path) and \<^verbatim>\<open>Delete\<close> return
  \<^verbatim>\<open>nil\<close>; all four leave the VFS as it was, the record of calls included: no file
  primitive is called, so nothing is read and nothing is touched.
\<close>

theorem sidecar_path_operations_are_noops:
  "(Ext s \<noteq> [] \<longrightarrow> IsSidecarPath s (metaPath s P))
   \<and> (IsSidecarPath s q \<longrightarrow>
        Load E s q v = ((PosixMeta_zero, Some ErrorObjectNotFound), v)
        \<and> Save E s q m v = (None, v)
        \<and> Rename E s q newPath v = (None, v)
        \<and> Delete E s q v = (None, v))"
  by (simp add: IsSidecarPath_metaPath Load_def Save_def Rename_def Delete_def)

theorem sidecar_path_operations_are_noops_witness:
  "Ext posix_store \<noteq> [] \<and> IsSidecarPath posix_store ''file.posixmeta''
   \<and> metaPath posix_store ''file'' = ''file.posixmeta''
   \<and> Load go_env posix_store ''file.posixmeta'' vfs_mode
       = ((PosixMeta_zero, Some ErrorObjectNotFound), vfs_mode)
   \<and> Save go_env posix_store ''file.posixmeta'' (PosixMeta_zero\<lparr>UID := Some ''1000''\<rparr>) vfs_mode
       = (None, vfs_mode)
   \<and> Rename go_env posix_store ''file.posixmeta'' ''other'' vfs_mode = (None, vfs_mode)
   \<and> Delete go_env posix_store ''file.posixmeta'' vfs_mode = (None, vfs_mode)"
  using sidecar_path_operations_are_noops
    [of posix_store "''file''" "''file.posixmeta''" go_env vfs_mode
        "PosixMeta_zero\<lparr>UID := Some ''1000''\<rparr>" "''other''"]
  by (simp add: posix_store_def metaPath_def)

section \<open>Delete\<close>

lemma Delete_propagates:
  "\<not> IsSidecarPath s path \<Longrightarrow> Delete E s path v = Vfs_Remove E (metaPath s path) v"
  by (simp add: Delete_def)

text \<open>
  C4, on the code. \<^verbatim>\<open>Delete\<close> on a path that is not a sidecar path returns whatever the
  remove primitive returns (\<open>Delete_propagates\<close>). For \<^verbatim>\<open>file\<close>, whose sidecar
  \<^verbatim>\<open>file.posixmeta\<close> does not exist, that is the primitive's \<^verbatim>\<open>vfs.ENOENT\<close>, not
  \<^verbatim>\<open>nil\<close>: unlike \<^verbatim>\<open>Rename\<close>, which asks \<^verbatim>\<open>Stat\<close> first, \<^verbatim>\<open>Delete\<close> has no branch
  for a sidecar that is not there.
\<close>

theorem Delete_of_missing_sidecar_fails:
  "\<not> IsSidecarPath posix_store ''file''
   \<and> files vfs_empty (metaPath posix_store ''file'') = None
   \<and> fst (Delete go_env posix_store ''file'' vfs_empty) = Some ENOENT"
  by (simp add: Delete_def Remove_fst vfs_empty_def go_env_def)

section \<open>Merge on save\<close>

lemma merge_fields:
  "Mode (merge cur m) = (if Mode m \<noteq> None then Mode m else Mode cur)"
  "UID (merge cur m) = (if UID m \<noteq> None then UID m else UID cur)"
  "GID (merge cur m) = (if GID m \<noteq> None then GID m else GID cur)"
  "Mtime (merge cur m) = (if Mtime m \<noteq> None then Mtime m else Mtime cur)"
  "Atime (merge cur m) = (if Atime m \<noteq> None then Atime m else Atime cur)"
  "Btime (merge cur m) = (if Btime m \<noteq> None then Btime m else Btime cur)"
  by (simp_all add: merge_def)

lemma merge_zero: "merge PosixMeta_zero m = m"
  by (rule PosixMeta.equality) (simp_all add: merge_fields PosixMeta_zero_def merge_def Let_def)

lemma Load_error_zero:
  "snd (fst (Load E s path v)) = Some e \<Longrightarrow> fst (fst (Load E s path v)) = PosixMeta_zero"
  by (auto simp: Load_fst split: if_splits sum.splits)

text \<open>
  C3. When \<^verbatim>\<open>Save\<close> succeeds on a path that is not a sidecar path, the sidecar file
  holds the encoding of the merged record, and each of the six fields of the merged
  record is the incoming field where that is present and the field of the current record
  (what \<^verbatim>\<open>Load\<close> returned) where it is not. The witness runs the example: over a sidecar
  holding the mode \<^verbatim>\<open>100644\<close>, saving the uid \<^verbatim>\<open>1000\<close> leaves a sidecar holding both.
\<close>

theorem Save_merges_field_by_field:
  assumes "\<not> IsSidecarPath s path" and "fst (Save E s path m v) = None"
  shows "(\<exists>enc. Marshal E (merge (fst (fst (Load E s path v))) m) = Inr enc
            \<and> files (snd (Save E s path m v)) (metaPath s path) = Some enc)
         \<and> Mode (merge (fst (fst (Load E s path v))) m)
             = (if Mode m \<noteq> None then Mode m else Mode (fst (fst (Load E s path v))))
         \<and> UID (merge (fst (fst (Load E s path v))) m)
             = (if UID m \<noteq> None then UID m else UID (fst (fst (Load E s path v))))
         \<and> GID (merge (fst (fst (Load E s path v))) m)
             = (if GID m \<noteq> None then GID m else GID (fst (fst (Load E s path v))))
         \<and> Mtime (merge (fst (fst (Load E s path v))) m)
             = (if Mtime m \<noteq> None then Mtime m else Mtime (fst (fst (Load E s path v))))
         \<and> Atime (merge (fst (fst (Load E s path v))) m)
             = (if Atime m \<noteq> None then Atime m else Atime (fst (fst (Load E s path v))))
         \<and> Btime (merge (fst (fst (Load E s path v))) m)
             = (if Btime m \<noteq> None then Btime m else Btime (fst (fst (Load E s path v))))"
  using Save_success [OF assms] by (simp only: merge_fields) blast

lemma Save_mode_uid_run:
  "fst (Save go_env posix_store ''file'' (PosixMeta_zero\<lparr>UID := Some ''1000''\<rparr>) vfs_mode) = None"
  by (simp add: Save_simps Load_vfs_mode go_env_def vfs_mode_def go_Marshal_def)

lemma Unmarshal_mode_uid:
  "go_Unmarshal json_mode_100644_uid_1000
     = Inr (PosixMeta_zero\<lparr>Mode := Some ''100644'', UID := Some ''1000''\<rparr>)"
  by (simp add: json_defs)

theorem Save_merges_field_by_field_witness:
  "\<not> IsSidecarPath posix_store ''file''
   \<and> files vfs_mode ''file.posixmeta'' = Some json_mode_100644
   \<and> fst (Save go_env posix_store ''file'' (PosixMeta_zero\<lparr>UID := Some ''1000''\<rparr>) vfs_mode) = None
   \<and> files (snd (Save go_env posix_store ''file'' (PosixMeta_zero\<lparr>UID := Some ''1000''\<rparr>) vfs_mode))
        ''file.posixmeta'' = Some json_mode_100644_uid_1000
   \<and> fst (Load go_env posix_store ''file''
            (snd (Save go_env posix_store ''file'' (PosixMeta_zero\<lparr>UID := Some ''1000''\<rparr>) vfs_mode)))
       = (PosixMeta_zero\<lparr>Mode := Some ''100644'', UID := Some ''1000''\<rparr>, None)"
proof -
  let ?m = "PosixMeta_zero\<lparr>UID := Some ''1000''\<rparr>"
  let ?v = "snd (Save go_env posix_store ''file'' ?m vfs_mode)"
  have a: "\<not> IsSidecarPath posix_store ''file''" by simp
  have l: "fst (Load go_env posix_store ''file'' vfs_mode)
             = (PosixMeta_zero\<lparr>Mode := Some ''100644''\<rparr>, None)"
    by (rule Load_vfs_mode) (simp_all add: vfs_mode_def go_env_def)
  from Save_merges_field_by_field [OF a Save_mode_uid_run]
  obtain enc where
    "Marshal go_env (merge (fst (fst (Load go_env posix_store ''file'' vfs_mode))) ?m) = Inr enc"
    and f: "files ?v ''file.posixmeta'' = Some enc"
    by auto
  moreover have "Marshal go_env = go_Marshal" by (simp add: go_env_def)
  ultimately have "enc = json_mode_100644_uid_1000"
    using Marshal_mode_uid by (simp add: l)
  with f have k: "files ?v ''file.posixmeta'' = Some json_mode_100644_uid_1000" by simp
  have n: "json_mode_100644_uid_1000 \<noteq> []"
    by (simp add: json_mode_100644_uid_1000_def)
  have u: "Unmarshal go_env = go_Unmarshal" "fail go_env = (\<lambda>c. None)"
    by (simp_all add: go_env_def)
  have "fst (Load go_env posix_store ''file'' ?v)
          = (PosixMeta_zero\<lparr>Mode := Some ''100644'', UID := Some ''1000''\<rparr>, None)"
    using k n by (simp add: Load_fst ReadFile_fst u Unmarshal_mode_uid)
  with a k Save_mode_uid_run show ?thesis
    by (simp add: vfs_mode_def)
qed


section \<open>Load\<close>

text \<open>
  C7. On a path that is not a sidecar path, and when the read itself does not fail: a
  sidecar file of zero bytes makes \<^verbatim>\<open>Load\<close> return \<^verbatim>\<open>fs.ErrorObjectNotFound\<close>; a sidecar
  file that does not exist makes it return the error of the read, which is the
  primitive's \<^verbatim>\<open>vfs.ENOENT\<close>; both are \<^emph>\<open>NotFound\<close> errors, and both come with the zero
  record, never with a record read from an empty payload. A payload that is not empty and
  that \<^verbatim>\<open>json.Unmarshal\<close> rejects makes \<^verbatim>\<open>Load\<close> return the error of the decoder.
\<close>

theorem Load_of_empty_or_missing_sidecar:
  assumes "\<not> IsSidecarPath s path" and "fail E (OpReadFile (metaPath s path)) = None"
  shows "(files v (metaPath s path) = Some [] \<longrightarrow>
            fst (Load E s path v) = (PosixMeta_zero, Some ErrorObjectNotFound))
         \<and> (files v (metaPath s path) = None \<longrightarrow>
              fst (Load E s path v) = (PosixMeta_zero, Some ENOENT))
         \<and> (files v (metaPath s path) = Some [] \<or> files v (metaPath s path) = None \<longrightarrow>
              (\<exists>e. fst (Load E s path v) = (PosixMeta_zero, Some e) \<and> NotFound e))
         \<and> (\<forall>b e. files v (metaPath s path) = Some b \<and> b \<noteq> [] \<and> Unmarshal E b = Inl e \<longrightarrow>
              fst (Load E s path v) = (PosixMeta_zero, Some e))"
  using assms by (auto simp: Load_fst ReadFile_fst NotFound_def)

lemma Unmarshal_not_json: "go_Unmarshal ''not json'' = Inl JSONError"
  by (simp add: go_Unmarshal_def)

lemma go_env_simps [simp]:
  "fail go_env = (\<lambda>c. None)" "Marshal go_env = go_Marshal" "Unmarshal go_env = go_Unmarshal"
  by (simp_all add: go_env_def)

theorem Load_of_empty_or_missing_sidecar_witness:
  "\<not> IsSidecarPath posix_store ''file''
   \<and> fail go_env (OpReadFile ''file.posixmeta'') = None
   \<and> files vfs_zero_bytes ''file.posixmeta'' = Some []
   \<and> fst (Load go_env posix_store ''file'' vfs_zero_bytes) = (PosixMeta_zero, Some ErrorObjectNotFound)
   \<and> files vfs_empty ''file.posixmeta'' = None
   \<and> fst (Load go_env posix_store ''file'' vfs_empty) = (PosixMeta_zero, Some ENOENT)
   \<and> NotFound ErrorObjectNotFound \<and> NotFound ENOENT
   \<and> files vfs_corrupt ''file.posixmeta'' = Some ''not json''
   \<and> fst (Load go_env posix_store ''file'' vfs_corrupt) = (PosixMeta_zero, Some JSONError)"
  using Load_of_empty_or_missing_sidecar [of posix_store "''file''" go_env vfs_zero_bytes]
    Load_of_empty_or_missing_sidecar [of posix_store "''file''" go_env vfs_empty]
    Load_of_empty_or_missing_sidecar [of posix_store "''file''" go_env vfs_corrupt]
    Unmarshal_not_json
  by (simp add: vfs_zero_bytes_def vfs_empty_def vfs_corrupt_def NotFound_def)

section \<open>Save over a sidecar that cannot be loaded\<close>

text \<open>
  C10. On a path that is not a sidecar path, whatever error \<^verbatim>\<open>Load\<close> returns (a missing
  sidecar, a decode error of a corrupt one, an I/O error of the read), \<^verbatim>\<open>Save\<close> goes on
  with the zero record as the current one: the merged record is the incoming record, and
  when none of the later steps fails \<^verbatim>\<open>Save\<close> succeeds and the sidecar file holds the
  encoding of the incoming record alone. The witness saves over a sidecar that is not
  JSON, and over one whose read fails.
\<close>

theorem Save_ignores_every_Load_error:
  assumes "\<not> IsSidecarPath s path"
    and "snd (fst (Load E s path v)) = Some e"
    and "Marshal E m = Inr enc"
    and "fail E (OpCreate (metaPath s path @ ''.tmp'')) = None"
    and "fail E (OpWrite (metaPath s path @ ''.tmp'') enc) = None"
    and "fail E (OpClose (metaPath s path @ ''.tmp'')) = None"
    and "fail E (OpRename (metaPath s path @ ''.tmp'') (metaPath s path)) = None"
  shows "fst (Save E s path m v) = None
         \<and> merge (fst (fst (Load E s path v))) m = m
         \<and> files (snd (Save E s path m v)) (metaPath s path) = Some enc"
proof -
  have z: "merge (fst (fst (Load E s path v))) m = m"
    using assms(2) by (simp add: Load_error_zero merge_zero)
  show ?thesis
    using assms(1,3-) z by (simp add: Save_simps)
qed

lemma Marshal_uid: "go_Marshal (PosixMeta_zero\<lparr>UID := Some ''1000''\<rparr>) = Inr json_uid_1000"
  by (simp add: json_defs)

theorem Save_ignores_every_Load_error_witness:
  "\<not> IsSidecarPath posix_store ''file''
   \<and> files vfs_corrupt ''file.posixmeta'' = Some ''not json''
   \<and> snd (fst (Load go_env posix_store ''file'' vfs_corrupt)) = Some JSONError
   \<and> fst (Save go_env posix_store ''file'' (PosixMeta_zero\<lparr>UID := Some ''1000''\<rparr>) vfs_corrupt) = None
   \<and> files (snd (Save go_env posix_store ''file'' (PosixMeta_zero\<lparr>UID := Some ''1000''\<rparr>) vfs_corrupt))
        ''file.posixmeta'' = Some json_uid_1000
   \<and> snd (fst (Load (failing (OpReadFile ''file.posixmeta'')) posix_store ''file'' vfs_mode))
       = Some IOError
   \<and> fst (Save (failing (OpReadFile ''file.posixmeta'')) posix_store ''file''
            (PosixMeta_zero\<lparr>UID := Some ''1000''\<rparr>) vfs_mode) = None
   \<and> files (snd (Save (failing (OpReadFile ''file.posixmeta'')) posix_store ''file''
                     (PosixMeta_zero\<lparr>UID := Some ''1000''\<rparr>) vfs_mode))
        ''file.posixmeta'' = Some json_uid_1000"
proof -
  let ?m = "PosixMeta_zero\<lparr>UID := Some ''1000''\<rparr>"
  let ?F = "failing (OpReadFile ''file.posixmeta'')"
  have a: "\<not> IsSidecarPath posix_store ''file''" by simp
  have c: "files vfs_corrupt ''file.posixmeta'' = Some ''not json''"
    by (simp add: vfs_corrupt_def)
  have l1: "snd (fst (Load go_env posix_store ''file'' vfs_corrupt)) = Some JSONError"
    using c by (simp add: Load_fst ReadFile_fst Unmarshal_not_json)
  have l2: "snd (fst (Load ?F posix_store ''file'' vfs_mode)) = Some IOError"
    by (simp add: Load_fst ReadFile_fst failing_def)
  have m1: "Marshal go_env ?m = Inr json_uid_1000" by (simp add: Marshal_uid)
  have m2: "Marshal ?F ?m = Inr json_uid_1000" by (simp add: failing_def Marshal_uid)
  from Save_ignores_every_Load_error [OF a l1 m1]
  have r1: "fst (Save go_env posix_store ''file'' ?m vfs_corrupt) = None
            \<and> files (snd (Save go_env posix_store ''file'' ?m vfs_corrupt)) ''file.posixmeta''
                = Some json_uid_1000"
    by simp
  from Save_ignores_every_Load_error [OF a l2 m2]
  have r2: "fst (Save ?F posix_store ''file'' ?m vfs_mode) = None
            \<and> files (snd (Save ?F posix_store ''file'' ?m vfs_mode)) ''file.posixmeta''
                = Some json_uid_1000"
    by (simp add: failing_def)
  from a c l1 l2 r1 r2 show ?thesis by simp
qed


section \<open>Attribute queries through the adapters\<close>

lemma setSys_files [simp]: "files (snd (setSys E opt node v)) = files v"
  by (simp add: setSys_def Let_def split_beta split: option.splits)

lemma Load_after_setSys:
  "fst (Load E s path (snd (setSys E opt node v))) = fst (Load E s path v)"
  by (rule Load_independent_of_trace) simp

lemma setSys_Load_error:
  "snd (fst (Load E \<lparr>Ext = PosixMetadataExtension opt\<rparr> (n_Path node) v)) = Some e \<Longrightarrow>
   fst (setSys E opt node v)
     = node\<lparr>n_Sys := Some \<lparr>Nlink = 1, sys_UID = Opt_UID opt, sys_GID = Opt_GID opt,
                              Fileid = n_Inode node\<rparr>\<rparr>"
  by (simp add: setSys_def Let_def split_beta split: option.splits)

text \<open>
  C8. \<^verbatim>\<open>File.Attr\<close> returns \<^verbatim>\<open>nil\<close> on every input, and \<^verbatim>\<open>FS.Stat\<close> returns a file info
  whenever the VFS has one for the file, whatever \<^verbatim>\<open>Load\<close> does. When \<^verbatim>\<open>Load\<close> returns an
  error, of any kind, \<^verbatim>\<open>Attr\<close> reports the attributes of the live file (its size, mode
  and modification time, the owner and group of the options), and \<^verbatim>\<open>Stat\<close> reports the
  file info of the VFS with the owner and group of the options, without an overlay.
\<close>

theorem attribute_query_survives_Load_error:
  "snd (fst (Attr E opt f a v)) = None
   \<and> (live_Stat L = Inr f \<longrightarrow> (\<exists>fi. fst (Stat E opt L filename v) = Inr fi))
   \<and> (snd (fst (Load E \<lparr>Ext = PosixMetadataExtension opt\<rparr> (n_Path f) v)) = Some e \<longrightarrow>
        fst (fst (Attr E opt f a v))
          = a\<lparr>a_Valid := AttrTimeout opt, a_Gid := Opt_GID opt, a_Uid := Opt_UID opt,
              a_Mode := n_Mode f AND NOT ModeAppend, a_Size := word_of_int (n_Size f),
              a_Atime := n_ModTime f, a_Mtime := n_ModTime f, a_Ctime := n_ModTime f,
              a_Blocks := (word_of_int (n_Size f) + 511) div 512\<rparr>)
   \<and> (live_Stat L = Inr f
        \<and> snd (fst (Load E \<lparr>Ext = PosixMetadataExtension opt\<rparr> (n_Path f) v)) = Some e
        \<and> snd (fst (Load E \<lparr>Ext = PosixMetadataExtension opt\<rparr> filename v)) = Some e' \<longrightarrow>
        fst (Stat E opt L filename v)
          = Inr (PlainInfo (f\<lparr>n_Sys := Some \<lparr>Nlink = 1, sys_UID = Opt_UID opt,
                                              sys_GID = Opt_GID opt, Fileid = n_Inode f\<rparr>\<rparr>)))"
proof (intro conjI impI)
  show "snd (fst (Attr E opt f a v)) = None"
    by (simp add: Attr_def Let_def split_beta)
  show "\<exists>fi. fst (Stat E opt L filename v) = Inr fi" if "live_Stat L = Inr f"
    using that by (simp add: Stat_def Let_def split_beta split: option.splits)
  show "fst (fst (Attr E opt f a v))
          = a\<lparr>a_Valid := AttrTimeout opt, a_Gid := Opt_GID opt, a_Uid := Opt_UID opt,
              a_Mode := n_Mode f AND NOT ModeAppend, a_Size := word_of_int (n_Size f),
              a_Atime := n_ModTime f, a_Mtime := n_ModTime f, a_Ctime := n_ModTime f,
              a_Blocks := (word_of_int (n_Size f) + 511) div 512\<rparr>"
    if "snd (fst (Load E \<lparr>Ext = PosixMetadataExtension opt\<rparr> (n_Path f) v)) = Some e"
    using that by (simp add: Attr_def Let_def split_beta split: option.splits)
  show "fst (Stat E opt L filename v)
          = Inr (PlainInfo (f\<lparr>n_Sys := Some \<lparr>Nlink = 1, sys_UID = Opt_UID opt,
                                              sys_GID = Opt_GID opt, Fileid = n_Inode f\<rparr>\<rparr>))"
    if "live_Stat L = Inr f
        \<and> snd (fst (Load E \<lparr>Ext = PosixMetadataExtension opt\<rparr> (n_Path f) v)) = Some e
        \<and> snd (fst (Load E \<lparr>Ext = PosixMetadataExtension opt\<rparr> filename v)) = Some e'"
    using that
    by (simp add: Stat_def Let_def split_beta Load_after_setSys setSys_Load_error
          split: option.splits)
qed


lemma Load_corrupt_run:
  "fst (Load go_env \<lparr>Ext = ''.posixmeta''\<rparr> ''file'' vfs_corrupt) = (PosixMeta_zero, Some JSONError)"
  using Unmarshal_not_json
  by (simp add: Load_fst ReadFile_fst vfs_corrupt_def IsSidecarPath_def HasSuffix_def metaPath_def)

theorem attribute_query_survives_Load_error_witness:
  "live_Stat live_ok = Inr file_node
   \<and> snd (fst (Load go_env \<lparr>Ext = PosixMetadataExtension persist_opt\<rparr> (n_Path file_node)
                  vfs_corrupt)) = Some JSONError
   \<and> fst (Attr go_env persist_opt file_node attr_zero vfs_corrupt)
       = (attr_zero\<lparr>a_Valid := 1, a_Gid := 1000, a_Uid := 1000,
              a_Mode := 0x1A4 AND NOT ModeAppend, a_Size := 1000,
              a_Atime := 63844891200, a_Mtime := 63844891200, a_Ctime := 63844891200,
              a_Blocks := (1000 + 511) div 512\<rparr>, None)
   \<and> fst (Stat go_env persist_opt live_ok ''file'' vfs_corrupt)
       = Inr (PlainInfo (file_node\<lparr>n_Sys := Some \<lparr>Nlink = 1, sys_UID = 1000, sys_GID = 1000,
                                                     Fileid = 7\<rparr>\<rparr>))"
proof -
  have l: "snd (fst (Load go_env \<lparr>Ext = PosixMetadataExtension persist_opt\<rparr> (n_Path file_node)
                  vfs_corrupt)) = Some JSONError"
    by (simp add: persist_opt_def file_node_def Load_corrupt_run)
  have l': "snd (fst (Load go_env \<lparr>Ext = PosixMetadataExtension persist_opt\<rparr> ''file''
                  vfs_corrupt)) = Some JSONError"
    by (simp add: persist_opt_def Load_corrupt_run)
  have s: "live_Stat live_ok = Inr file_node" by (simp add: live_ok_def)
  from attribute_query_survives_Load_error
         [of go_env persist_opt file_node attr_zero vfs_corrupt live_ok "''file''" JSONError JSONError]
       l l' s
  have "snd (fst (Attr go_env persist_opt file_node attr_zero vfs_corrupt)) = None"
    and "fst (fst (Attr go_env persist_opt file_node attr_zero vfs_corrupt))
          = attr_zero\<lparr>a_Valid := AttrTimeout persist_opt, a_Gid := Opt_GID persist_opt,
              a_Uid := Opt_UID persist_opt,
              a_Mode := n_Mode file_node AND NOT ModeAppend, a_Size := word_of_int (n_Size file_node),
              a_Atime := n_ModTime file_node, a_Mtime := n_ModTime file_node,
              a_Ctime := n_ModTime file_node,
              a_Blocks := (word_of_int (n_Size file_node) + 511) div 512\<rparr>"
    and "fst (Stat go_env persist_opt live_ok ''file'' vfs_corrupt)
          = Inr (PlainInfo (file_node\<lparr>n_Sys := Some \<lparr>Nlink = 1, sys_UID = Opt_UID persist_opt,
                                sys_GID = Opt_GID persist_opt, Fileid = n_Inode file_node\<rparr>\<rparr>))"
    by simp_all
  with l s show ?thesis
    by (simp add: prod_eq_iff persist_opt_def file_node_def)
qed

section \<open>Attribute mutations through the adapters\<close>

lemma Setattr_meta_fields:
  "Mode (Setattr_meta E req)
     = (if Valid_Mode req then Some (FormatPosixMode (req_Mode req) False) else None)"
  "UID (Setattr_meta E req)
     = (if Valid_Uid req then Some (FormatUint (unat (req_Uid req)) 10) else None)"
  "GID (Setattr_meta E req)
     = (if Valid_Gid req then Some (FormatUint (unat (req_Gid req)) 10) else None)"
  "Atime (Setattr_meta E req)
     = (if Valid_Atime req then Some (FormatRFC3339 E (req_Atime req))
        else if Valid_AtimeNow req then Some (FormatRFC3339 E (Now E)) else None)"
  "Mtime (Setattr_meta E req)
     = (if Valid_Mtime req then Some (FormatRFC3339 E (req_Mtime req))
        else if Valid_MtimeNow req then Some (FormatRFC3339 E (Now E)) else None)"
  "Btime (Setattr_meta E req) = None"
  by (simp_all add: Setattr_meta_def PosixMeta_zero_def Let_def)

lemma Setattr_result:
  "fst (Setattr E opt L f req v) =
     map_option (translateError E)
       (let err = (if Valid_Size req then live_Truncate L else None)
        in if \<not> NoModTime opt \<and> (Valid_Mtime req \<or> Valid_MtimeNow req) \<and> err = None
           then live_SetModTime L else err)"
  by (auto simp: Setattr_def Let_def)

lemma Setattr_state:
  "snd (Setattr E opt L f req v) =
     (if PersistMetadata opt \<and> \<not> IsSidecarPath \<lparr>Ext = PosixMetadataExtension opt\<rparr> (n_Path f)
         \<and> PosixAnyFieldSet (Setattr_meta E req)
      then snd (Save E \<lparr>Ext = PosixMetadataExtension opt\<rparr> (n_Path f) (Setattr_meta E req) v)
      else v)"
  by (simp add: Setattr_def Let_def)

text \<open>
  C5, as the code has it. \<^verbatim>\<open>Chmod\<close>, \<^verbatim>\<open>Chown\<close> and \<^verbatim>\<open>Chtimes\<close> of the network share leave
  the sidecar alone when the live call returned an error, where \<^verbatim>\<open>Chmod\<close> takes
  \<^verbatim>\<open>vfs.ENOSYS\<close> of \<^verbatim>\<open>file.Chmod\<close> for success; otherwise, with persistence on and a path
  that is not a sidecar path, they call \<^verbatim>\<open>Save\<close> with a record that holds the fields of
  the request and no other: the mode; the uid and the gid; the access and the
  modification time. \<^verbatim>\<open>Setattr\<close> of the mount, on a request whose live part succeeded,
  calls \<^verbatim>\<open>Save\<close> with the record built from the request, whose fields are those the
  request marks valid among mode, uid, gid, access time and modification time (a time
  marked \<^emph>\<open>now\<close> being the clock's), and calls nothing when no field is marked.
\<close>

theorem overlay_mutations_save_the_requested_fields:
  "(live_Open L \<noteq> None \<or> (live_Chmod L \<noteq> None \<and> live_Chmod L \<noteq> Some ENOSYS) \<longrightarrow>
      snd (Chmod E opt L name mode v) = v)
   \<and> (live_Open L = None \<and> (live_Chmod L = None \<or> live_Chmod L = Some ENOSYS)
        \<and> PersistMetadata opt \<and> \<not> IsSidecarPath \<lparr>Ext = PosixMetadataExtension opt\<rparr> name \<longrightarrow>
      Chmod E opt L name mode v
        = (None, snd (Save E \<lparr>Ext = PosixMetadataExtension opt\<rparr> name
                        (PosixMeta_zero\<lparr>Mode := Some (FormatPosixMode mode False)\<rparr>) v)))
   \<and> (live_Open L \<noteq> None \<or> live_Chown L \<noteq> None \<longrightarrow>
        snd (Chown E opt L name uid gid v) = v)
   \<and> (live_Open L = None \<and> live_Chown L = None
        \<and> PersistMetadata opt \<and> \<not> IsSidecarPath \<lparr>Ext = PosixMetadataExtension opt\<rparr> name \<longrightarrow>
      Chown E opt L name uid gid v
        = (None, snd (Save E \<lparr>Ext = PosixMetadataExtension opt\<rparr> name
                        (PosixMeta_zero\<lparr>UID := Some (FormatUint (unat (word_of_int uid :: 64 word)) 10),
                                        GID := Some (FormatUint (unat (word_of_int gid :: 64 word)) 10)\<rparr>)
                        v)))
   \<and> (live_Chtimes L \<noteq> None \<longrightarrow> snd (Chtimes E opt L name atime mtime v) = v)
   \<and> (live_Chtimes L = None
        \<and> PersistMetadata opt \<and> \<not> IsSidecarPath \<lparr>Ext = PosixMetadataExtension opt\<rparr> name \<longrightarrow>
      Chtimes E opt L name atime mtime v
        = (None, snd (Save E \<lparr>Ext = PosixMetadataExtension opt\<rparr> name
                        (PosixMeta_zero\<lparr>Atime := Some (FormatRFC3339 E atime),
                                        Mtime := Some (FormatRFC3339 E mtime)\<rparr>) v)))
   \<and> (fst (Setattr E opt L f req v) = None
        \<and> PersistMetadata opt \<and> \<not> IsSidecarPath \<lparr>Ext = PosixMetadataExtension opt\<rparr> (n_Path f)
        \<and> PosixAnyFieldSet (Setattr_meta E req) \<longrightarrow>
      snd (Setattr E opt L f req v)
        = snd (Save E \<lparr>Ext = PosixMetadataExtension opt\<rparr> (n_Path f) (Setattr_meta E req) v))
   \<and> (\<not> PosixAnyFieldSet (Setattr_meta E req) \<longrightarrow> snd (Setattr E opt L f req v) = v)
   \<and> Mode (Setattr_meta E req)
       = (if Valid_Mode req then Some (FormatPosixMode (req_Mode req) False) else None)
   \<and> UID (Setattr_meta E req)
       = (if Valid_Uid req then Some (FormatUint (unat (req_Uid req)) 10) else None)
   \<and> GID (Setattr_meta E req)
       = (if Valid_Gid req then Some (FormatUint (unat (req_Gid req)) 10) else None)
   \<and> Atime (Setattr_meta E req)
       = (if Valid_Atime req then Some (FormatRFC3339 E (req_Atime req))
          else if Valid_AtimeNow req then Some (FormatRFC3339 E (Now E)) else None)
   \<and> Mtime (Setattr_meta E req)
       = (if Valid_Mtime req then Some (FormatRFC3339 E (req_Mtime req))
          else if Valid_MtimeNow req then Some (FormatRFC3339 E (Now E)) else None)
   \<and> Btime (Setattr_meta E req) = None"
  by (auto simp: Chmod_def Chown_def Chtimes_def Setattr_state Setattr_meta_fields Let_def
        split: option.splits)


text \<open>
  \<^verbatim>\<open>Setattr\<close> does not look at the error of the live calls before it saves: with
  persistence on, a path that is not a sidecar path and a field marked valid, the save is
  made whatever \<^verbatim>\<open>Truncate\<close> and \<^verbatim>\<open>SetModTime\<close> returned.
\<close>

lemma Setattr_saves_whatever_the_live_outcome:
  assumes "PersistMetadata opt"
    and "\<not> IsSidecarPath \<lparr>Ext = PosixMetadataExtension opt\<rparr> (n_Path f)"
    and "PosixAnyFieldSet (Setattr_meta E req)"
  shows "snd (Setattr E opt L f req v)
           = snd (Save E \<lparr>Ext = PosixMetadataExtension opt\<rparr> (n_Path f) (Setattr_meta E req) v)"
  using assms by (simp add: Setattr_state)

lemma mode_100644: "FormatPosixMode 0x1A4 False = ''100644''"
  by (simp add: mode_eval)

lemma Marshal_mode:
  "go_Marshal (PosixMeta_zero\<lparr>Mode := Some ''100644''\<rparr>) = Inr json_mode_100644"
  by (simp add: json_defs)

lemma Save_mode_on_empty:
  "fst (Save go_env posix_store ''file'' (PosixMeta_zero\<lparr>Mode := Some ''100644''\<rparr>) vfs_empty) = None"
  "files (snd (Save go_env posix_store ''file'' (PosixMeta_zero\<lparr>Mode := Some ''100644''\<rparr>) vfs_empty))
     ''file.posixmeta'' = Some json_mode_100644"
  by (simp_all add: Save_simps Load_fst ReadFile_fst merge_zero Marshal_mode vfs_empty_def)

lemma persist_opt_store: "\<lparr>Ext = PosixMetadataExtension persist_opt\<rparr> = posix_store"
  by (simp add: persist_opt_def posix_store_def)

text \<open>
  The claim as it is worded fails on \<^verbatim>\<open>Chmod\<close>: when \<^verbatim>\<open>file.Chmod\<close> returns
  \<^verbatim>\<open>vfs.ENOSYS\<close>, so that the mode of the live file was not changed, the error is masked
  and the mode is saved to the sidecar all the same.
\<close>

theorem Chmod_saves_after_ENOSYS:
  "live_Chmod live_chmod_enosys = Some ENOSYS
   \<and> files vfs_empty ''file.posixmeta'' = None
   \<and> fst (Chmod go_env persist_opt live_chmod_enosys ''file'' 0x1A4 vfs_empty) = None
   \<and> files (snd (Chmod go_env persist_opt live_chmod_enosys ''file'' 0x1A4 vfs_empty))
        ''file.posixmeta'' = Some json_mode_100644"
  by (simp add: Chmod_def Let_def persist_opt_store mode_100644 Save_mode_on_empty
        live_chmod_enosys_def live_ok_def)
     (simp add: persist_opt_def vfs_empty_def)

theorem overlay_mutations_save_the_requested_fields_witness:
  "live_Open live_ok = None \<and> live_Chmod live_ok = None \<and> live_Chown live_ok = None
   \<and> live_Chtimes live_ok = None
   \<and> PersistMetadata persist_opt
   \<and> \<not> IsSidecarPath \<lparr>Ext = PosixMetadataExtension persist_opt\<rparr> ''file''
   \<and> Chmod go_env persist_opt live_ok ''file'' 0x1A4 vfs_empty
       = (None, snd (Save go_env posix_store ''file''
                       (PosixMeta_zero\<lparr>Mode := Some ''100644''\<rparr>) vfs_empty))
   \<and> live_Chmod live_chmod_fails = Some IOError
   \<and> snd (Chmod go_env persist_opt live_chmod_fails ''file'' 0x1A4 vfs_empty) = vfs_empty
   \<and> Chown go_env persist_opt live_ok ''file'' 1000 1000 vfs_empty
       = (None, snd (Save go_env posix_store ''file''
                       (PosixMeta_zero\<lparr>UID := Some ''1000'', GID := Some ''1000''\<rparr>) vfs_empty))
   \<and> Chtimes go_env persist_opt live_ok ''file'' 63844891200 63844891200 vfs_empty
       = (None, snd (Save go_env posix_store ''file''
                       (PosixMeta_zero\<lparr>Atime := Some (utc_FormatRFC3339 63844891200),
                                       Mtime := Some (utc_FormatRFC3339 63844891200)\<rparr>) vfs_empty))
   \<and> fst (Setattr go_env persist_opt live_ok file_node req_mode vfs_empty) = None
   \<and> PosixAnyFieldSet (Setattr_meta go_env req_mode)
   \<and> Setattr_meta go_env req_mode = PosixMeta_zero\<lparr>Mode := Some ''100644''\<rparr>
   \<and> snd (Setattr go_env persist_opt live_ok file_node req_mode vfs_empty)
       = snd (Save go_env posix_store ''file''
                (PosixMeta_zero\<lparr>Mode := Some ''100644''\<rparr>) vfs_empty)"
proof -
  have u: "FormatUint 1000 10 = ''1000''"
    by (simp add: mode_eval)
  have f: "FormatRFC3339 go_env = utc_FormatRFC3339" by (simp add: go_env_def)
  have m: "Setattr_meta go_env req_mode = PosixMeta_zero\<lparr>Mode := Some ''100644''\<rparr>"
    by (rule PosixMeta.equality)
       (simp_all add: Setattr_meta_fields req_mode_def mode_100644 PosixMeta_zero_def)
  have p: "PosixAnyFieldSet (Setattr_meta go_env req_mode)"
    by (simp add: m PosixAnyFieldSet_def)
  have r: "fst (Setattr go_env persist_opt live_ok file_node req_mode vfs_empty) = None"
    by (simp add: Setattr_result req_mode_def live_ok_def)
  have n: "n_Path file_node = ''file''" by (simp add: file_node_def)
  have l: "live_Open live_ok = None" "live_Chmod live_ok = None" "live_Chown live_ok = None"
    "live_Chtimes live_ok = None" "live_Open live_chmod_fails = None"
    "live_Chmod live_chmod_fails = Some IOError"
    by (simp_all add: live_ok_def live_chmod_fails_def)
  have o: "PersistMetadata persist_opt" by (simp add: persist_opt_def)
  have a: "\<not> IsSidecarPath \<lparr>Ext = PosixMetadataExtension persist_opt\<rparr> ''file''"
    by (simp add: persist_opt_store)
  from overlay_mutations_save_the_requested_fields
         [of live_ok go_env persist_opt "''file''" "0x1A4" vfs_empty 1000 1000
             63844891200 63844891200 file_node req_mode]
    overlay_mutations_save_the_requested_fields
         [of live_chmod_fails go_env persist_opt "''file''" "0x1A4" vfs_empty 1000 1000
             63844891200 63844891200 file_node req_mode]
    l o a r p
  show ?thesis
    by (simp add: persist_opt_store mode_100644 u f m n)
qed


end
